theory Spec2Isabelle
  imports Main "HOL-Library.Multiset"
begin

text \<open>
  The request lifecycle, the availability listing and the payment routes of the service
  marketplace, embedded from \<^verbatim>\<open>shared/schema.ts\<close>, \<^verbatim>\<open>server/storage.ts\<close>,
  \<^verbatim>\<open>server/routes.ts\<close> and the mutations of the request page.
\<close>

section \<open>Data model (shared/schema.ts)\<close>

text \<open>
  The three tables of the marketplace. A timestamp is a number of milliseconds; an id is the
  string the database generates (\<^verbatim>\<open>gen_random_uuid()\<close>). The column
  \<^verbatim>\<open>service_requests.status\<close> is a \<^verbatim>\<open>text\<close> column: its
  \<^verbatim>\<open>$type<'pending' | ...>\<close> annotation exists for the type checker only, and
  the server stores whatever string it is handed, so the model keeps a string. A string is
  a text as the database stores it. A nullable column is an \<open>option\<close>.
\<close>

type_synonym timestamp = nat

datatype UserType = client | technician

record User =
  user_id :: string
  email :: string
  userType :: "UserType option"
  skills :: "string list option"

record ServiceRequest =
  sr_id :: string
  clientId :: string
  technicianId :: "string option"
  serviceType :: string
  description :: string
  location :: string
  status :: string
  quotedPrice :: "int option"
  technicianNotes :: "string option"
  images :: "string list option"
  createdAt :: timestamp
  updatedAt :: timestamp

datatype PaymentStatus = pay_pending | succeeded | failed

record Payment =
  pay_id :: string
  serviceRequestId :: string
  amount :: int
  stripePaymentIntentId :: string
  pay_status :: PaymentStatus
  pay_createdAt :: timestamp

text \<open>
  \<^verbatim>\<open>InsertServiceRequest\<close>: the insert schema without id, createdAt and updatedAt.
  A field the caller may leave out is an \<open>option\<close> (\<open>None\<close>: left out); for a
  nullable column with a default the inner \<open>option\<close> is the explicit \<^verbatim>\<open>null\<close>.
\<close>

record InsertServiceRequest =
  i_clientId :: string
  i_technicianId :: "string option"
  i_serviceType :: string
  i_description :: string
  i_location :: string
  i_status :: "string option"
  i_quotedPrice :: "int option"
  i_technicianNotes :: "string option"
  i_images :: "string list option option"

text \<open>
  The updates the storage takes. Their declared type is
  \<^verbatim>\<open>Partial<InsertServiceRequest>\<close>, but the PATCH route hands over
  \<^verbatim>\<open>req.body\<close> as it arrives, and the \<^verbatim>\<open>SET\<close> clause writes every key
  that names a column. So the record has one field for every column of the table but
  updatedAt, which the storage overwrites. \<open>None\<close> is a key the body does not have,
  \<open>Some None\<close> is \<^verbatim>\<open>null\<close>, and \<open>Some (Some v)\<close> is a JSON value of the
  column's kind: a string, an integer, a list of strings; for createdAt a string, since JSON
  has no dates. Keys that name no column are ignored by the storage and are left out.
\<close>

record ServiceRequestUpdates =
  u_id :: "string option option"
  u_clientId :: "string option option"
  u_technicianId :: "string option option"
  u_serviceType :: "string option option"
  u_description :: "string option option"
  u_location :: "string option option"
  u_status :: "string option option"
  u_quotedPrice :: "int option option"
  u_technicianNotes :: "string option option"
  u_images :: "string list option option"
  u_createdAt :: "string option option"

record InsertPayment =
  ip_serviceRequestId :: string
  ip_amount :: int
  ip_stripePaymentIntentId :: string
  ip_status :: PaymentStatus

text \<open>The database: each table is the list of its rows, in the order a scan returns them.\<close>

record Db =
  users :: "User list"
  serviceRequests :: "ServiceRequest list"
  payments :: "Payment list"

text \<open>
  What the schema makes the database refuse: \<^verbatim>\<open>null\<close> in a
  \<^verbatim>\<open>notNull()\<close> column, a second row with the same primary key, a
  \<^verbatim>\<open>references()\<close> column that names no row (or a key that a referencing row
  still names), and an \<^verbatim>\<open>integer\<close> outside 32 bits. A refused statement throws
  and writes nothing. A timestamp column encodes a \<^verbatim>\<open>Date\<close>; handed a string,
  the encoder throws before the statement is sent.
\<close>

datatype DbError =
    NotNullViolation
  | UniqueViolation
  | ForeignKeyViolation
  | NumericValueOutOfRange
  | InvalidTimestamp

definition int4 :: "int \<Rightarrow> bool" where
  "int4 n = (- 2147483648 \<le> n \<and> n \<le> 2147483647)"

definition userIds :: "Db \<Rightarrow> string list" where
  "userIds db = map user_id (users db)"

definition requestIds :: "Db \<Rightarrow> string list" where
  "requestIds db = map sr_id (serviceRequests db)"

section \<open>DbStorage (server/storage.ts)\<close>

text \<open>\<^verbatim>\<open>select ... where <p> limit 1\<close> and \<^verbatim>\<open>result[0]\<close>: the first matching row, if any.\<close>

definition getUser :: "Db \<Rightarrow> string \<Rightarrow> User option" where
  "getUser db uid = find (\<lambda>u. user_id u = uid) (users db)"

definition getServiceRequest :: "Db \<Rightarrow> string \<Rightarrow> ServiceRequest option" where
  "getServiceRequest db rid = find (\<lambda>r. sr_id r = rid) (serviceRequests db)"

text \<open>
  \<^verbatim>\<open>orderBy(desc(col))\<close>: the rows sorted on the column, largest first. The
  database is free in the order of rows with equal values; the model takes one such order.
\<close>

definition orderByDesc :: "('a \<Rightarrow> timestamp) \<Rightarrow> 'a list \<Rightarrow> 'a list" where
  "orderByDesc col rows = rev (sort_key col rows)"

definition getServiceRequestsByClient :: "Db \<Rightarrow> string \<Rightarrow> ServiceRequest list" where
  "getServiceRequestsByClient db cid =
     orderByDesc createdAt (filter (\<lambda>r. clientId r = cid) (serviceRequests db))"

definition getServiceRequestsByTechnician :: "Db \<Rightarrow> string \<Rightarrow> ServiceRequest list" where
  "getServiceRequestsByTechnician db tid =
     orderByDesc createdAt (filter (\<lambda>r. technicianId r = Some tid) (serviceRequests db))"

text \<open>
  \<^verbatim>\<open>getAvailableServiceRequests(skills?)\<close>: the pending, unassigned rows, newest first;
  \<^verbatim>\<open>if (skills && skills.length > 0)\<close> keeps the rows whose service type is
  included in the skills (\<^verbatim>\<open>Array.includes\<close>: strict equality of strings).
\<close>

definition getAvailableServiceRequests :: "Db \<Rightarrow> string list option \<Rightarrow> ServiceRequest list" where
  "getAvailableServiceRequests db skills_opt =
     (let results = orderByDesc createdAt
            (filter (\<lambda>r. status r = ''pending'' \<and> technicianId r = None) (serviceRequests db))
      in case skills_opt of
           None \<Rightarrow> results
         | Some sk \<Rightarrow>
             if length sk > 0 then filter (\<lambda>req. serviceType req \<in> set sk) results
             else results)"

text \<open>
  \<^verbatim>\<open>createServiceRequest\<close>: one inserted row. The database fills the id, both
  timestamps (\<^verbatim>\<open>defaultNow()\<close>), the status when it is left out
  (\<^verbatim>\<open>default('pending')\<close>) and the images when they are left out (the empty array).
  It refuses a price outside 32 bits, an id that is taken, and a client or technician that
  is no user.
\<close>

definition insertError :: "Db \<Rightarrow> string \<Rightarrow> InsertServiceRequest \<Rightarrow> DbError option" where
  "insertError db newId request =
     (if (case i_quotedPrice request of None \<Rightarrow> False | Some p \<Rightarrow> \<not> int4 p)
      then Some NumericValueOutOfRange
      else if newId \<in> set (requestIds db) then Some UniqueViolation
      else if i_clientId request \<notin> set (userIds db) then Some ForeignKeyViolation
      else if (case i_technicianId request of None \<Rightarrow> False | Some t \<Rightarrow> t \<notin> set (userIds db))
      then Some ForeignKeyViolation
      else None)"

definition createServiceRequest ::
  "Db \<Rightarrow> timestamp \<Rightarrow> string \<Rightarrow> InsertServiceRequest \<Rightarrow> DbError + (Db \<times> ServiceRequest)" where
  "createServiceRequest db now newId request =
     (case insertError db newId request of
        Some e \<Rightarrow> Inl e
      | None \<Rightarrow>
          (let row = \<lparr> sr_id = newId,
                       clientId = i_clientId request,
                       technicianId = i_technicianId request,
                       serviceType = i_serviceType request,
                       description = i_description request,
                       location = i_location request,
                       status = (case i_status request of None \<Rightarrow> ''pending'' | Some s \<Rightarrow> s),
                       quotedPrice = i_quotedPrice request,
                       technicianNotes = i_technicianNotes request,
                       images = (case i_images request of None \<Rightarrow> Some [] | Some im \<Rightarrow> im),
                       createdAt = now,
                       updatedAt = now \<rparr>
           in Inr (db\<lparr>serviceRequests := serviceRequests db @ [row]\<rparr>, row)))"

text \<open>
  \<^verbatim>\<open>set({...updates, updatedAt: new Date()})\<close>: every key the updates carry
  replaces the column, and updatedAt is written last. (A \<^verbatim>\<open>null\<close> for a
  \<^verbatim>\<open>notNull()\<close> column and a createdAt never get this far: the statement is
  refused, see \<open>updateError\<close>.)
\<close>

definition applyUpdates :: "timestamp \<Rightarrow> ServiceRequestUpdates \<Rightarrow> ServiceRequest \<Rightarrow> ServiceRequest" where
  "applyUpdates now u r =
     r\<lparr> sr_id := (case u_id u of Some (Some v) \<Rightarrow> v | _ \<Rightarrow> sr_id r),
        clientId := (case u_clientId u of Some (Some v) \<Rightarrow> v | _ \<Rightarrow> clientId r),
        technicianId := (case u_technicianId u of None \<Rightarrow> technicianId r | Some v \<Rightarrow> v),
        serviceType := (case u_serviceType u of Some (Some v) \<Rightarrow> v | _ \<Rightarrow> serviceType r),
        description := (case u_description u of Some (Some v) \<Rightarrow> v | _ \<Rightarrow> description r),
        location := (case u_location u of Some (Some v) \<Rightarrow> v | _ \<Rightarrow> location r),
        status := (case u_status u of Some (Some v) \<Rightarrow> v | _ \<Rightarrow> status r),
        quotedPrice := (case u_quotedPrice u of None \<Rightarrow> quotedPrice r | Some v \<Rightarrow> v),
        technicianNotes := (case u_technicianNotes u of None \<Rightarrow> technicianNotes r | Some v \<Rightarrow> v),
        images := (case u_images u of None \<Rightarrow> images r | Some v \<Rightarrow> v),
        updatedAt := now \<rparr>"

text \<open>
  What makes the update throw whatever rows it meets: a createdAt that is a string (the
  encoder of the timestamp column), a price outside 32 bits.
\<close>

definition valueError :: "ServiceRequestUpdates \<Rightarrow> DbError option" where
  "valueError u =
     (if (case u_createdAt u of Some (Some s) \<Rightarrow> True | _ \<Rightarrow> False) then Some InvalidTimestamp
      else if (case u_quotedPrice u of Some (Some p) \<Rightarrow> \<not> int4 p | _ \<Rightarrow> False)
      then Some NumericValueOutOfRange
      else None)"

text \<open>
  What makes the database refuse the update of the row \<open>r\<close>: \<^verbatim>\<open>null\<close> for a
  \<^verbatim>\<open>notNull()\<close> column; a new id that another request has, or a new id while a
  payment still names the old one; a new client or technician that is no user.
\<close>

definition rowError :: "Db \<Rightarrow> ServiceRequestUpdates \<Rightarrow> ServiceRequest \<Rightarrow> DbError option" where
  "rowError db u r =
     (if u_id u = Some None \<or> u_clientId u = Some None \<or> u_serviceType u = Some None
         \<or> u_description u = Some None \<or> u_location u = Some None \<or> u_status u = Some None
         \<or> u_createdAt u = Some None
      then Some NotNullViolation
      else if (case u_id u of
                 Some (Some v) \<Rightarrow> v \<noteq> sr_id r \<and> v \<in> set (requestIds db)
               | _ \<Rightarrow> False)
      then Some UniqueViolation
      else if (case u_id u of
                 Some (Some v) \<Rightarrow> v \<noteq> sr_id r \<and> sr_id r \<in> set (map serviceRequestId (payments db))
               | _ \<Rightarrow> False)
      then Some ForeignKeyViolation
      else if (case u_clientId u of
                 Some (Some c) \<Rightarrow> c \<noteq> clientId r \<and> c \<notin> set (userIds db)
               | _ \<Rightarrow> False)
      then Some ForeignKeyViolation
      else if (case u_technicianId u of
                 Some (Some t) \<Rightarrow> technicianId r \<noteq> Some t \<and> t \<notin> set (userIds db)
               | _ \<Rightarrow> False)
      then Some ForeignKeyViolation
      else None)"

definition updateError :: "Db \<Rightarrow> string \<Rightarrow> ServiceRequestUpdates \<Rightarrow> DbError option" where
  "updateError db rid u =
     (case valueError u of
        Some e \<Rightarrow> Some e
      | None \<Rightarrow>
          (case List.map_filter (rowError db u) (filter (\<lambda>r. sr_id r = rid) (serviceRequests db)) of
             [] \<Rightarrow> None
           | e # _ \<Rightarrow> Some e))"

text \<open>
  \<^verbatim>\<open>updateServiceRequest\<close>: \<^verbatim>\<open>update ... where id = <id> returning\<close>,
  and the first returned row (\<^verbatim>\<open>undefined\<close> when no row matched).
\<close>

definition updateServiceRequest ::
  "Db \<Rightarrow> timestamp \<Rightarrow> string \<Rightarrow> ServiceRequestUpdates
     \<Rightarrow> DbError + (Db \<times> ServiceRequest option)" where
  "updateServiceRequest db now rid updates =
     (case updateError db rid updates of
        Some e \<Rightarrow> Inl e
      | None \<Rightarrow>
          (let result = map (applyUpdates now updates)
                          (filter (\<lambda>r. sr_id r = rid) (serviceRequests db));
               rows = map (\<lambda>r. if sr_id r = rid then applyUpdates now updates r else r)
                        (serviceRequests db)
           in Inr (db\<lparr>serviceRequests := rows\<rparr>,
                   case result of [] \<Rightarrow> None | x # _ \<Rightarrow> Some x)))"

definition createPayment :: "Db \<Rightarrow> timestamp \<Rightarrow> string \<Rightarrow> InsertPayment \<Rightarrow> Db \<times> Payment" where
  "createPayment db now newId payment =
     (let row = \<lparr> pay_id = newId,
                  serviceRequestId = ip_serviceRequestId payment,
                  amount = ip_amount payment,
                  stripePaymentIntentId = ip_stripePaymentIntentId payment,
                  pay_status = ip_status payment,
                  pay_createdAt = now \<rparr>
      in (db\<lparr>payments := payments db @ [row]\<rparr>, row))"

text \<open>
  \<^verbatim>\<open>getPaymentByServiceRequest\<close>: \<^verbatim>\<open>where serviceRequestId = <id> limit 1\<close>
  with no ordering: one row of the request, the first the scan meets (which row that is,
  among several, is the database's choice; the model takes the order of the list).
\<close>

definition getPaymentByServiceRequest :: "Db \<Rightarrow> string \<Rightarrow> Payment option" where
  "getPaymentByServiceRequest db rid = find (\<lambda>p. serviceRequestId p = rid) (payments db)"

definition updatePaymentStatus :: "Db \<Rightarrow> string \<Rightarrow> PaymentStatus \<Rightarrow> Db \<times> Payment option" where
  "updatePaymentStatus db pid st =
     (let rows = map (\<lambda>p. if pay_id p = pid then p\<lparr>pay_status := st\<rparr> else p) (payments db)
      in (db\<lparr>payments := rows\<rparr>, find (\<lambda>p. pay_id p = pid) rows))"

section \<open>Routes (server/routes.ts)\<close>

text \<open>
  A handler answers with a JSON body or with \<^verbatim>\<open>res.status(code).json({ message })\<close>.
  The caller's id is the one the authentication middleware yields. The clock
  (\<^verbatim>\<open>new Date()\<close>, \<^verbatim>\<open>defaultNow()\<close>) and the generated id are
  arguments of the handlers that write.
\<close>

datatype 'a Response = Json 'a | Error nat string

fun errorCode :: "'a Response \<Rightarrow> nat option" where
  "errorCode (Json v) = None"
| "errorCode (Error code msg) = Some code"

text \<open>The names the specification gives to the failures, by HTTP status.\<close>

definition Forbidden :: "'a Response \<Rightarrow> bool" where
  "Forbidden resp = (errorCode resp = Some 403)"

definition NotFound :: "'a Response \<Rightarrow> bool" where
  "NotFound resp = (errorCode resp = Some 404)"

definition Conflict :: "'a Response \<Rightarrow> bool" where
  "Conflict resp = (errorCode resp = Some 409)"

subsection \<open>POST /api/technician/jobs\<close>

record JobBody =
  jb_serviceType :: "string option"
  jb_description :: "string option"
  jb_location :: "string option"

text \<open>
  \<^verbatim>\<open>minimalSchema.parse\<close>: three strings of at least 1, 10 and 3 characters
  (a string is the list of the units that \<^verbatim>\<open>length\<close> counts).
\<close>

definition minimalSchema_parse :: "JobBody \<Rightarrow> (string \<times> string \<times> string) option" where
  "minimalSchema_parse body =
     (case (jb_serviceType body, jb_description body, jb_location body) of
        (Some st, Some d, Some l) \<Rightarrow>
          if length st \<ge> 1 \<and> length d \<ge> 10 \<and> length l \<ge> 3 then Some (st, d, l) else None
      | _ \<Rightarrow> None)"

definition post_technician_jobs ::
  "Db \<Rightarrow> timestamp \<Rightarrow> string \<Rightarrow> string \<Rightarrow> JobBody \<Rightarrow> Db \<times> ServiceRequest Response" where
  "post_technician_jobs db now newId userId body =
     (case getUser db userId of
        None \<Rightarrow> (db, Error 403 ''Access denied. Technician role required.'')
      | Some user \<Rightarrow>
          if userType user \<noteq> Some technician
          then (db, Error 403 ''Access denied. Technician role required.'')
          else (case minimalSchema_parse body of
                  None \<Rightarrow> (db, Error 400 ''Invalid job data'')
                | Some (st, d, l) \<Rightarrow>
                    (case createServiceRequest db now newId
                           \<lparr> i_clientId = userId,
                             i_technicianId = Some userId,
                             i_serviceType = st,
                             i_description = d,
                             i_location = l,
                             i_status = Some ''pending'',
                             i_quotedPrice = None,
                             i_technicianNotes = None,
                             i_images = None \<rparr> of
                       Inl e \<Rightarrow> (db, Error 500 ''Failed to create job'')
                     | Inr (db', created) \<Rightarrow> (db', Json created))))"

subsection \<open>POST /api/service-requests\<close>

text \<open>
  The request body as \<^verbatim>\<open>insertServiceRequestSchema\<close> reads it: the three required
  texts may be missing (then the parse fails), the other columns are optional, and the
  schema of the integer column bounds the price to 32 bits. A clientId of the body is
  overwritten by the caller's id (\<^verbatim>\<open>{ ...req.body, clientId: userId }\<close>).
\<close>

record ServiceRequestBody =
  b_technicianId :: "string option"
  b_serviceType :: "string option"
  b_description :: "string option"
  b_location :: "string option"
  b_status :: "string option"
  b_quotedPrice :: "int option"
  b_technicianNotes :: "string option"
  b_images :: "string list option option"

definition insertServiceRequestSchema_parse ::
  "string \<Rightarrow> ServiceRequestBody \<Rightarrow> InsertServiceRequest option" where
  "insertServiceRequestSchema_parse userId body =
     (case (b_serviceType body, b_description body, b_location body) of
        (Some st, Some d, Some l) \<Rightarrow>
          if (case b_quotedPrice body of None \<Rightarrow> False | Some p \<Rightarrow> \<not> int4 p) then None
          else
          Some \<lparr> i_clientId = userId,
                 i_technicianId = b_technicianId body,
                 i_serviceType = st,
                 i_description = d,
                 i_location = l,
                 i_status = b_status body,
                 i_quotedPrice = b_quotedPrice body,
                 i_technicianNotes = b_technicianNotes body,
                 i_images = b_images body \<rparr>
      | _ \<Rightarrow> None)"

definition post_service_requests ::
  "Db \<Rightarrow> timestamp \<Rightarrow> string \<Rightarrow> string \<Rightarrow> ServiceRequestBody \<Rightarrow> Db \<times> ServiceRequest Response" where
  "post_service_requests db now newId userId body =
     (if userId = [] then (db, Error 401 ''Unauthorized'')
      else (case insertServiceRequestSchema_parse userId body of
              None \<Rightarrow> (db, Error 400 ''Invalid request data'')
            | Some data \<Rightarrow>
                (case createServiceRequest db now newId data of
                   Inl e \<Rightarrow> (db, Error 500 ''Failed to create service request'')
                 | Inr (db', serviceRequest) \<Rightarrow> (db', Json serviceRequest))))"

subsection \<open>GET /api/service-requests/available\<close>

definition get_service_requests_available :: "Db \<Rightarrow> string \<Rightarrow> ServiceRequest list Response" where
  "get_service_requests_available db userId =
     (case getUser db userId of
        None \<Rightarrow> Error 403 ''Access denied. Technician role required.''
      | Some user \<Rightarrow>
          if userType user \<noteq> Some technician
          then Error 403 ''Access denied. Technician role required.''
          else Json (getAvailableServiceRequests db
                 (Some (case skills user of None \<Rightarrow> [] | Some sk \<Rightarrow> sk))))"

subsection \<open>PATCH /api/service-requests/:id\<close>

text \<open>
  The body goes to the storage as it is (\<^verbatim>\<open>const updates = req.body\<close>); the only
  checks are that the request and the caller's user row exist and that the caller is the
  request's client or its technician. An update that throws is caught and answered 500.
\<close>

definition patch_service_request ::
  "Db \<Rightarrow> timestamp \<Rightarrow> string \<Rightarrow> string \<Rightarrow> ServiceRequestUpdates
     \<Rightarrow> Db \<times> ServiceRequest option Response" where
  "patch_service_request db now rid userId updates =
     (case getServiceRequest db rid of
        None \<Rightarrow> (db, Error 404 ''Service request not found'')
      | Some request \<Rightarrow>
          (case getUser db userId of
             None \<Rightarrow> (db, Error 404 ''User not found'')
           | Some user \<Rightarrow>
               if clientId request \<noteq> userId \<and> technicianId request \<noteq> Some userId
               then (db, Error 403 ''Access denied'')
               else (case updateServiceRequest db now rid updates of
                       Inl e \<Rightarrow> (db, Error 500 ''Failed to update service request'')
                     | Inr (db', updated) \<Rightarrow> (db', Json updated))))"

subsection \<open>The payment processor\<close>

text \<open>
  Stripe is outside the repository: the two calls the routes make are parameters.
  \<open>None\<close> is a call that throws (the handler's \<^verbatim>\<open>catch\<close> then answers 500).
  \<^verbatim>\<open>paymentIntents.create\<close> receives the amount in cents and the metadata
  (serviceRequestId, clientId, technicianId).
\<close>

record PaymentIntent =
  pi_id :: string
  client_secret :: "string option"
  pi_status :: string

record Stripe =
  paymentIntents_create :: "int \<Rightarrow> string \<Rightarrow> string \<Rightarrow> string \<Rightarrow> PaymentIntent option"
  paymentIntents_retrieve :: "string \<Rightarrow> PaymentIntent option"

subsection \<open>POST /api/payments/create-intent\<close>

record CreateIntentResponse =
  clientSecret :: "string option"
  paymentId :: string

text \<open>
  \<^verbatim>\<open>!request.quotedPrice\<close> holds of \<^verbatim>\<open>null\<close> and of 0, and
  \<^verbatim>\<open>request.technicianId || ''\<close> is the empty string for \<^verbatim>\<open>null\<close>.
\<close>

definition post_payments_create_intent ::
  "Stripe \<Rightarrow> Db \<Rightarrow> timestamp \<Rightarrow> string \<Rightarrow> string \<Rightarrow> Db \<times> CreateIntentResponse Response" where
  "post_payments_create_intent stripe db now newId srid =
     (case getServiceRequest db srid of
        None \<Rightarrow> (db, Error 404 ''Service request not found'')
      | Some request \<Rightarrow>
          if status request \<noteq> ''completed''
          then (db, Error 400 ''Service request must be completed before payment'')
          else (case quotedPrice request of
              None \<Rightarrow> (db, Error 400 ''No quoted price available'')
            | Some price \<Rightarrow>
                if price = 0 then (db, Error 400 ''No quoted price available'')
                else if (case getPaymentByServiceRequest db srid of
                           None \<Rightarrow> False
                         | Some existingPayment \<Rightarrow> pay_status existingPayment = succeeded)
                then (db, Error 400 ''Payment already completed'')
                else (case paymentIntents_create stripe (price * 100) srid (clientId request)
                             (case technicianId request of None \<Rightarrow> [] | Some t \<Rightarrow> t) of
                        None \<Rightarrow> (db, Error 500 ''Failed to create payment intent'')
                      | Some paymentIntent \<Rightarrow>
                          (let (db', payment) = createPayment db now newId
                                 \<lparr> ip_serviceRequestId = srid,
                                   ip_amount = price,
                                   ip_stripePaymentIntentId = pi_id paymentIntent,
                                   ip_status = pay_pending \<rparr>
                           in (db', Json \<lparr> clientSecret = client_secret paymentIntent,
                                           paymentId = pay_id payment \<rparr>)))))"

text \<open>The two 400 answers the specification calls InvalidState, and the one it calls AlreadyPaid.\<close>

definition InvalidState :: "'a Response \<Rightarrow> bool" where
  "InvalidState resp =
     (resp = Error 400 ''Service request must be completed before payment''
      \<or> resp = Error 400 ''No quoted price available'')"

definition AlreadyPaid :: "'a Response \<Rightarrow> bool" where
  "AlreadyPaid resp = (resp = Error 400 ''Payment already completed'')"

subsection \<open>POST /api/payments/confirm\<close>

text \<open>
  The handler reads \<^verbatim>\<open>paymentId\<close> and \<^verbatim>\<open>paymentIntentId\<close> from the body.
  Whatever else the client puts in the body is the record's extension, which the handler
  never reads. The authenticated caller is an argument the handler never reads either.
\<close>

record ConfirmBody =
  cb_paymentId :: string
  cb_paymentIntentId :: string

record ConfirmResponse =
  success :: bool
  message :: string

definition post_payments_confirm ::
  "Stripe \<Rightarrow> Db \<Rightarrow> string \<Rightarrow> 'a ConfirmBody_scheme \<Rightarrow> Db \<times> ConfirmResponse Response" where
  "post_payments_confirm stripe db userId body =
     (case paymentIntents_retrieve stripe (cb_paymentIntentId body) of
        None \<Rightarrow> (db, Error 500 ''Failed to confirm payment'')
      | Some paymentIntent \<Rightarrow>
          if pi_status paymentIntent = ''succeeded''
          then (let (db', updated) = updatePaymentStatus db (cb_paymentId body) succeeded
                in (db', Json \<lparr> success = True, message = ''Payment confirmed'' \<rparr>))
          else (db, Json \<lparr> success = False, message = ''Payment not yet completed'' \<rparr>))"

section \<open>The client's mutations (client/src/pages/request-details.tsx)\<close>

definition noUpdates :: ServiceRequestUpdates where
  "noUpdates = \<lparr> u_id = None, u_clientId = None, u_technicianId = None,
                 u_serviceType = None, u_description = None, u_location = None,
                 u_status = None, u_quotedPrice = None, u_technicianNotes = None,
                 u_images = None, u_createdAt = None \<rparr>"

text \<open>\<^verbatim>\<open>acceptJobMutation\<close>: PATCH with \<^verbatim>\<open>{ technicianId: user.id, status: 'accepted' }\<close>.\<close>

definition acceptJobBody :: "string \<Rightarrow> ServiceRequestUpdates" where
  "acceptJobBody userId =
     noUpdates\<lparr> u_technicianId := Some (Some userId), u_status := Some (Some ''accepted'') \<rparr>"

definition acceptJobMutation ::
  "Db \<Rightarrow> timestamp \<Rightarrow> string \<Rightarrow> string \<Rightarrow> Db \<times> ServiceRequest option Response" where
  "acceptJobMutation db now rid userId =
     patch_service_request db now rid userId (acceptJobBody userId)"

text \<open>\<^verbatim>\<open>updateStatusMutation(status)\<close>: PATCH with \<^verbatim>\<open>{ status }\<close>.\<close>

definition updateStatusBody :: "string \<Rightarrow> ServiceRequestUpdates" where
  "updateStatusBody st = noUpdates\<lparr> u_status := Some (Some st) \<rparr>"

definition updateStatusMutation ::
  "Db \<Rightarrow> timestamp \<Rightarrow> string \<Rightarrow> string \<Rightarrow> string \<Rightarrow> Db \<times> ServiceRequest option Response" where
  "updateStatusMutation db now rid userId st =
     patch_service_request db now rid userId (updateStatusBody st)"

text \<open>
  \<^verbatim>\<open>completeJobMutation\<close>: PATCH with
  \<^verbatim>\<open>{ status: 'completed', quotedPrice: parseInt(quotedPrice), technicianNotes }\<close>.
  The price is what \<^verbatim>\<open>parseInt\<close> gives: an integer of any size, or
  \<^verbatim>\<open>NaN\<close> (for the input \<^verbatim>\<open>.5\<close>, say), which JSON sends as
  \<^verbatim>\<open>null\<close>: \<open>None\<close> here.
\<close>

definition completeJobBody :: "int option \<Rightarrow> string \<Rightarrow> ServiceRequestUpdates" where
  "completeJobBody price notes =
     noUpdates\<lparr> u_status := Some (Some ''completed''), u_quotedPrice := Some price,
                 u_technicianNotes := Some (Some notes) \<rparr>"


section \<open>The API as a state machine\<close>

text \<open>
  One call of a route that writes, with what it runs with: the clock, the generated id, the
  caller and, for the payment routes, the processor as it answers at that moment. A step is
  the database the handler leaves.
\<close>

datatype ApiCall =
    CreateRequest timestamp string string ServiceRequestBody
  | TechnicianJob timestamp string string JobBody
  | Patch timestamp string string ServiceRequestUpdates
  | CreateIntent Stripe timestamp string string
  | Confirm Stripe string ConfirmBody

fun api_step :: "Db \<Rightarrow> ApiCall \<Rightarrow> Db" where
  "api_step db (CreateRequest now newId userId body) =
     fst (post_service_requests db now newId userId body)"
| "api_step db (TechnicianJob now newId userId body) =
     fst (post_technician_jobs db now newId userId body)"
| "api_step db (Patch now rid userId updates) =
     fst (patch_service_request db now rid userId updates)"
| "api_step db (CreateIntent stripe now newId srid) =
     fst (post_payments_create_intent stripe db now newId srid)"
| "api_step db (Confirm stripe userId body) =
     fst (post_payments_confirm stripe db userId body)"

fun run :: "Db \<Rightarrow> ApiCall list \<Rightarrow> Db" where
  "run db [] = db"
| "run db (c # cs) = run (api_step db c) cs"

section \<open>Predicates of the specification\<close>

text \<open>The relation between technician and status, as the specification words it.\<close>

definition technicianInvariant :: "ServiceRequest \<Rightarrow> bool" where
  "technicianInvariant r =
     ((technicianId r \<noteq> None) = (status r \<noteq> ''pending'' \<and> status r \<noteq> ''cancelled''))"

text \<open>The primary key of the table holds, and every row satisfies the relation.\<close>

definition requestsInvariant :: "Db \<Rightarrow> bool" where
  "requestsInvariant db =
     (distinct (map sr_id (serviceRequests db))
      \<and> list_all technicianInvariant (serviceRequests db))"

text \<open>The caller is the technician the request is bound to.\<close>

definition boundTechnician :: "Db \<Rightarrow> string \<Rightarrow> string \<Rightarrow> bool" where
  "boundTechnician db rid userId =
     (case getServiceRequest db rid of None \<Rightarrow> False | Some r \<Rightarrow> technicianId r = Some userId)"

text \<open>
  The calls of the request lifecycle: a request created with neither a status nor a
  technician in the body (under a fresh id), the accept update, a start or complete update
  sent by the bound technician, and the payment calls.
\<close>

fun lifecycleCall :: "Db \<Rightarrow> ApiCall \<Rightarrow> bool" where
  "lifecycleCall db (CreateRequest now newId userId body) =
     (b_status body = None \<and> b_technicianId body = None
      \<and> newId \<notin> set (map sr_id (serviceRequests db)))"
| "lifecycleCall db (TechnicianJob now newId userId body) = False"
| "lifecycleCall db (Patch now rid userId updates) =
     ((u_technicianId updates = Some (Some userId)
       \<and> u_status updates = Some (Some ''accepted''))
      \<or> (u_technicianId updates = None
          \<and> (u_status updates = Some (Some ''in_progress'')
              \<or> u_status updates = Some (Some ''completed''))
          \<and> boundTechnician db rid userId))"
| "lifecycleCall db (CreateIntent stripe now newId srid) = True"
| "lifecycleCall db (Confirm stripe userId body) = True"

fun lifecycleCalls :: "Db \<Rightarrow> ApiCall list \<Rightarrow> bool" where
  "lifecycleCalls db [] = True"
| "lifecycleCalls db (c # cs) = (lifecycleCall db c \<and> lifecycleCalls (api_step db c) cs)"

definition terminal :: "string \<Rightarrow> bool" where
  "terminal st = (st = ''completed'' \<or> st = ''cancelled'')"

text \<open>The caller passes the checks of the PATCH route on the request.\<close>

definition mayUpdate :: "Db \<Rightarrow> string \<Rightarrow> string \<Rightarrow> bool" where
  "mayUpdate db rid userId =
     (case getServiceRequest db rid of
        None \<Rightarrow> False
      | Some r \<Rightarrow> getUser db userId \<noteq> None
                  \<and> (clientId r = userId \<or> technicianId r = Some userId))"

text \<open>The PATCH goes through: the caller passes the checks and the database takes the update.\<close>

definition patchApplies :: "Db \<Rightarrow> string \<Rightarrow> string \<Rightarrow> ServiceRequestUpdates \<Rightarrow> bool" where
  "patchApplies db rid userId u = (mayUpdate db rid userId \<and> updateError db rid u = None)"

text \<open>
  The status, the client and the id that a call writes into the request \<open>rid\<close>, if any,
  and the id under which the request is found after the call.
\<close>

fun writtenStatus :: "Db \<Rightarrow> string \<Rightarrow> ApiCall \<Rightarrow> string option" where
  "writtenStatus db rid (Patch now rid' userId updates) =
     (if rid' = rid \<and> patchApplies db rid userId updates
      then (case u_status updates of Some (Some s) \<Rightarrow> Some s | _ \<Rightarrow> None) else None)"
| "writtenStatus db rid c = None"

fun writtenClientId :: "Db \<Rightarrow> string \<Rightarrow> ApiCall \<Rightarrow> string option" where
  "writtenClientId db rid (Patch now rid' userId updates) =
     (if rid' = rid \<and> patchApplies db rid userId updates
      then (case u_clientId updates of Some (Some c) \<Rightarrow> Some c | _ \<Rightarrow> None) else None)"
| "writtenClientId db rid c = None"

fun writtenId :: "Db \<Rightarrow> string \<Rightarrow> ApiCall \<Rightarrow> string option" where
  "writtenId db rid (Patch now rid' userId updates) =
     (if rid' = rid \<and> patchApplies db rid userId updates
      then (case u_id updates of Some (Some v) \<Rightarrow> Some v | _ \<Rightarrow> None) else None)"
| "writtenId db rid c = None"

definition idAfter :: "Db \<Rightarrow> string \<Rightarrow> ApiCall \<Rightarrow> string" where
  "idAfter db rid c = (case writtenId db rid c of None \<Rightarrow> rid | Some v \<Rightarrow> v)"

text \<open>The primary key of the requests holds.\<close>

definition requestKey :: "Db \<Rightarrow> bool" where
  "requestKey db = distinct (requestIds db)"

text \<open>The payments of a request that have succeeded.\<close>

definition succeededPayments :: "Db \<Rightarrow> string \<Rightarrow> Payment list" where
  "succeededPayments db rid =
     filter (\<lambda>p. serviceRequestId p = rid \<and> pay_status p = succeeded) (payments db)"

definition paymentsOf :: "Db \<Rightarrow> string \<Rightarrow> Payment list" where
  "paymentsOf db rid = filter (\<lambda>p. serviceRequestId p = rid) (payments db)"


text \<open>What the caller's skills let through: everything when there are none.\<close>

definition matchesSkills :: "string list option \<Rightarrow> ServiceRequest \<Rightarrow> bool" where
  "matchesSkills skills_opt r =
     (case skills_opt of None \<Rightarrow> True | Some sk \<Rightarrow> sk = [] \<or> serviceType r \<in> set sk)"

definition isAvailable :: "ServiceRequest \<Rightarrow> bool" where
  "isAvailable r = (status r = ''pending'' \<and> technicianId r = None)"

section \<open>A worked scenario\<close>

text \<open>
  The data of the specification's end-to-end scenarios: a client, two technicians (a plumber
  and an electrician), and a plumbing request in each of its states.
\<close>

definition ex_c1 :: User where
  "ex_c1 = \<lparr> user_id = ''c1'', email = ''c1@example.com'', userType = Some client,
             skills = Some [] \<rparr>"

definition ex_t1 :: User where
  "ex_t1 = \<lparr> user_id = ''t1'', email = ''t1@example.com'', userType = Some technician,
             skills = Some [''Plumber''] \<rparr>"

definition ex_t2 :: User where
  "ex_t2 = \<lparr> user_id = ''t2'', email = ''t2@example.com'', userType = Some technician,
             skills = Some [''Electrician''] \<rparr>"

definition ex_db0 :: Db where
  "ex_db0 = \<lparr> users = [ex_c1, ex_t1, ex_t2], serviceRequests = [], payments = [] \<rparr>"

definition ex_body :: ServiceRequestBody where
  "ex_body = \<lparr> b_technicianId = None, b_serviceType = Some ''Plumber'',
               b_description = Some ''Kitchen sink leaks'', b_location = Some ''12 Main St'',
               b_status = None, b_quotedPrice = None, b_technicianNotes = None,
               b_images = None \<rparr>"

definition ex_job :: JobBody where
  "ex_job = \<lparr> jb_serviceType = Some ''Plumber'', jb_description = Some ''Kitchen sink leaks'',
              jb_location = Some ''12 Main St'' \<rparr>"

definition ex_pending :: ServiceRequest where
  "ex_pending = \<lparr> sr_id = ''r1'', clientId = ''c1'', technicianId = None,
                  serviceType = ''Plumber'', description = ''Kitchen sink leaks'',
                  location = ''12 Main St'', status = ''pending'', quotedPrice = None,
                  technicianNotes = None, images = Some [], createdAt = 1, updatedAt = 1 \<rparr>"

definition ex_accepted :: ServiceRequest where
  "ex_accepted = ex_pending\<lparr> technicianId := Some ''t1'', status := ''accepted'', updatedAt := 2 \<rparr>"

definition ex_in_progress :: ServiceRequest where
  "ex_in_progress = ex_accepted\<lparr> status := ''in_progress'', updatedAt := 3 \<rparr>"

definition ex_completed :: ServiceRequest where
  "ex_completed = ex_in_progress\<lparr> status := ''completed'', quotedPrice := Some 120,
                     technicianNotes := Some ''Fixed leak'', updatedAt := 4 \<rparr>"

definition ex_db :: "ServiceRequest \<Rightarrow> Db" where
  "ex_db r = ex_db0\<lparr> serviceRequests := [r] \<rparr>"

text \<open>
  A processor that creates the intent \<open>fresh\<close> for a positive amount and throws otherwise,
  and that reports the intents in \<open>paid\<close> as succeeded; and a processor that knows no
  intent, so that every call throws.
\<close>

definition ex_stripe_unknown :: Stripe where
  "ex_stripe_unknown =
     \<lparr> paymentIntents_create = (\<lambda>cents srid cid tid. None),
       paymentIntents_retrieve = (\<lambda>ref. None) \<rparr>"

definition ex_stripe :: "string \<Rightarrow> string list \<Rightarrow> Stripe" where
  "ex_stripe fresh paid =
     \<lparr> paymentIntents_create = (\<lambda>cents srid cid tid.
          if cents > 0
          then Some \<lparr> pi_id = fresh, client_secret = Some (fresh @ ''_secret''),
                      pi_status = ''requires_payment_method'' \<rparr>
          else None),
       paymentIntents_retrieve = (\<lambda>ref.
          Some \<lparr> pi_id = ref, client_secret = Some (ref @ ''_secret''),
                 pi_status = (if ref \<in> set paid then ''succeeded''
                              else ''requires_payment_method'') \<rparr>) \<rparr>"

text \<open>
  A table for the listing: the pending plumbing request, a pending request for an
  electrician, a plumbing request that is taken, and a newer pending plumbing request.
\<close>

definition ex_electric :: ServiceRequest where
  "ex_electric = ex_pending\<lparr> sr_id := ''r2'', serviceType := ''Electrician'', createdAt := 5 \<rparr>"

definition ex_taken :: ServiceRequest where
  "ex_taken = ex_accepted\<lparr> sr_id := ''r3'', createdAt := 6 \<rparr>"

definition ex_newer :: ServiceRequest where
  "ex_newer = ex_pending\<lparr> sr_id := ''r4'', createdAt := 7 \<rparr>"

definition ex_listing_db :: Db where
  "ex_listing_db = ex_db0\<lparr> serviceRequests := [ex_pending, ex_electric, ex_taken, ex_newer] \<rparr>"

text \<open>Payments of the completed request, and the request with a negative price.\<close>

definition ex_payment :: "string \<Rightarrow> string \<Rightarrow> PaymentStatus \<Rightarrow> timestamp \<Rightarrow> Payment" where
  "ex_payment pid intent st t =
     \<lparr> pay_id = pid, serviceRequestId = ''r1'', amount = 120, stripePaymentIntentId = intent,
       pay_status = st, pay_createdAt = t \<rparr>"

definition ex_paid_db :: "Payment list \<Rightarrow> Db" where
  "ex_paid_db ps = (ex_db ex_completed)\<lparr> payments := ps \<rparr>"

definition ex_negative :: ServiceRequest where
  "ex_negative = ex_completed\<lparr> quotedPrice := Some (- 5) \<rparr>"

text \<open>
  The client asks for a payment intent twice, pays both intents at the processor, and
  confirms each payment with its intent.
\<close>

definition ex_double_payment :: "ApiCall list" where
  "ex_double_payment =
     [CreateIntent (ex_stripe ''pi_1'' []) 10 ''p1'' ''r1'',
      CreateIntent (ex_stripe ''pi_2'' []) 11 ''p2'' ''r1'',
      Confirm (ex_stripe ''pi_3'' [''pi_1'', ''pi_2'']) ''c1''
        \<lparr> cb_paymentId = ''p1'', cb_paymentIntentId = ''pi_1'' \<rparr>,
      Confirm (ex_stripe ''pi_3'' [''pi_1'', ''pi_2'']) ''c1''
        \<lparr> cb_paymentId = ''p2'', cb_paymentIntentId = ''pi_2'' \<rparr>]"

text \<open>A technician posts a request, accepts it, starts it and completes it.\<close>

definition ex_lifecycle :: "ApiCall list" where
  "ex_lifecycle =
     [CreateRequest 1 ''r1'' ''t1'' ex_body,
      Patch 2 ''r1'' ''t1'' (acceptJobBody ''t1''),
      Patch 3 ''r1'' ''t1'' (updateStatusBody ''in_progress''),
      Patch 4 ''r1'' ''t1'' (completeJobBody (Some 120) ''Fixed leak'')]"

section \<open>Facts about the storage and the routes\<close>

lemmas ex_defs = ex_c1_def ex_t1_def ex_t2_def ex_db0_def ex_pending_def
  ex_accepted_def ex_in_progress_def ex_completed_def ex_db_def ex_stripe_def
  ex_payment_def ex_paid_db_def
  acceptJobBody_def updateStatusBody_def completeJobBody_def noUpdates_def

lemmas storage_defs = createServiceRequest_def insertError_def updateServiceRequest_def
  updateError_def valueError_def rowError_def applyUpdates_def int4_def userIds_def
  requestIds_def List.map_filter_def createPayment_def getPaymentByServiceRequest_def
  updatePaymentStatus_def getUser_def getServiceRequest_def Let_def

lemmas route_defs = post_service_requests_def post_technician_jobs_def patch_service_request_def
  post_payments_create_intent_def post_payments_confirm_def insertServiceRequestSchema_parse_def
  minimalSchema_parse_def storage_defs

lemma idWritten: "sr_id (applyUpdates now u r) = (case u_id u of Some (Some v) \<Rightarrow> v | _ \<Rightarrow> sr_id r)"
  by (simp add: applyUpdates_def)

lemma applyUpdates_createdAt [simp]: "createdAt (applyUpdates now u r) = createdAt r"
  by (simp add: applyUpdates_def)

lemma applyUpdates_updatedAt [simp]: "updatedAt (applyUpdates now u r) = now"
  by (simp add: applyUpdates_def)

lemma applyUpdates_same_id [simp]: "u_id u = None \<Longrightarrow> sr_id (applyUpdates now u r) = sr_id r"
  by (simp add: applyUpdates_def)

lemma find_append_Some: "find P xs = Some x \<Longrightarrow> find P (xs @ ys) = Some x"
  by (induction xs) (auto split: if_splits)

lemma find_distinct_key:
  "distinct (map key xs) \<Longrightarrow> find (\<lambda>x. key x = k) xs = Some y \<Longrightarrow> x \<in> set xs \<Longrightarrow> key x = k
     \<Longrightarrow> x = y"
  by (induction xs) (auto split: if_splits dest: find_Some_iff [THEN iffD1] simp: image_iff)

lemma find_in_set: "find P xs = Some x \<Longrightarrow> x \<in> set xs \<and> P x"
  by (induction xs) (auto split: if_splits)

lemma filter_distinct_key:
  "distinct (map key xs) \<Longrightarrow> find (\<lambda>x. key x = k) xs = Some y \<Longrightarrow>
     filter (\<lambda>x. key x = k) xs = [y]"
  by (induction xs) (auto split: if_splits simp: filter_empty_conv image_iff)

lemma head_of_matching:
  "(case map f (filter P xs) of [] \<Rightarrow> None | x # _ \<Rightarrow> Some x) = map_option f (find P xs)"
  by (induction xs) auto

lemma map_filter_empty: "(List.map_filter f xs = []) = (\<forall>x\<in>set xs. f x = None)"
  by (induction xs) (auto simp add: List.map_filter_def)

text \<open>The update is taken when no value and no matching row makes it throw.\<close>

lemma updateError_None:
  "(updateError db rid u = None) =
     (valueError u = None \<and> (\<forall>r\<in>set (serviceRequests db). sr_id r = rid \<longrightarrow> rowError db u r = None))"
proof (cases "valueError u")
  case None
  have "(List.map_filter (rowError db u) (filter (\<lambda>r. sr_id r = rid) (serviceRequests db)) = [])
      = (\<forall>r\<in>set (serviceRequests db). sr_id r = rid \<longrightarrow> rowError db u r = None)"
    by (auto simp add: map_filter_empty)
  moreover have "(updateError db rid u = None)
      = (List.map_filter (rowError db u) (filter (\<lambda>r. sr_id r = rid) (serviceRequests db)) = [])"
    using None by (simp add: updateError_def split: list.splits)
  ultimately show ?thesis
    using None by simp
next
  case (Some e)
  then show ?thesis by (simp add: updateError_def)
qed

lemma updateServiceRequest_taken:
  "updateError db rid u = None \<Longrightarrow>
   updateServiceRequest db now rid u =
     Inr (db\<lparr>serviceRequests :=
            map (\<lambda>r. if sr_id r = rid then applyUpdates now u r else r) (serviceRequests db)\<rparr>,
          map_option (applyUpdates now u) (getServiceRequest db rid))"
  by (simp add: updateServiceRequest_def getServiceRequest_def head_of_matching Let_def)

lemma updateServiceRequest_refused:
  "updateError db rid u = Some e \<Longrightarrow> updateServiceRequest db now rid u = Inl e"
  by (simp add: updateServiceRequest_def)

text \<open>The PATCH route, by the checks it makes.\<close>

lemma patch_cases:
  "patch_service_request db now rid userId u =
    (if getServiceRequest db rid = None then (db, Error 404 ''Service request not found'')
     else if getUser db userId = None then (db, Error 404 ''User not found'')
     else if \<not> mayUpdate db rid userId then (db, Error 403 ''Access denied'')
     else if updateError db rid u \<noteq> None
     then (db, Error 500 ''Failed to update service request'')
     else (db\<lparr>serviceRequests :=
                map (\<lambda>r. if sr_id r = rid then applyUpdates now u r else r) (serviceRequests db)\<rparr>,
           Json (map_option (applyUpdates now u) (getServiceRequest db rid))))"
proof (cases "updateError db rid u")
  case None
  then show ?thesis
    by (auto simp add: patch_service_request_def mayUpdate_def updateServiceRequest_taken
        split: option.splits)
next
  case (Some e)
  then show ?thesis
    by (auto simp add: patch_service_request_def mayUpdate_def updateServiceRequest_refused
        split: option.splits)
qed

lemma patch_not_applied:
  "\<not> patchApplies db rid userId u \<Longrightarrow> fst (patch_service_request db now rid userId u) = db"
  by (auto simp add: patch_cases patchApplies_def)

lemma patch_denied:
  "\<not> mayUpdate db rid userId \<Longrightarrow> fst (patch_service_request db now rid userId u) = db"
  by (simp add: patch_not_applied patchApplies_def)

lemma patch_applied:
  "patchApplies db rid userId u \<Longrightarrow>
     patch_service_request db now rid userId u =
       (db\<lparr>serviceRequests :=
            map (\<lambda>r. if sr_id r = rid then applyUpdates now u r else r) (serviceRequests db)\<rparr>,
        Json (map_option (applyUpdates now u) (getServiceRequest db rid)))"
  unfolding patch_cases by (auto simp add: patchApplies_def mayUpdate_def split: option.splits)

lemma patch_refused:
  "mayUpdate db rid userId \<Longrightarrow> updateError db rid u \<noteq> None \<Longrightarrow>
     patch_service_request db now rid userId u
       = (db, Error 500 ''Failed to update service request'')"
  unfolding patch_cases by (auto simp add: mayUpdate_def split: option.splits)

lemma mayUpdate_iff:
  "getServiceRequest db rid = Some r \<Longrightarrow>
     mayUpdate db rid userId
       = (getUser db userId \<noteq> None \<and> (clientId r = userId \<or> technicianId r = Some userId))"
  by (simp add: mayUpdate_def)

lemma getUser_userIds: "getUser db userId \<noteq> None \<Longrightarrow> userId \<in> set (userIds db)"
  by (auto simp add: getUser_def userIds_def find_None_iff)


lemma rowError_key:
  "rowError db u r = None \<Longrightarrow>
     sr_id (applyUpdates now u r) = sr_id r \<or> sr_id (applyUpdates now u r) \<notin> set (requestIds db)"
  by (auto simp add: rowError_def idWritten split: option.splits if_splits)

lemma find_updated_same:
  assumes "distinct (map sr_id rows)" "find (\<lambda>x. sr_id x = rid) rows = Some r"
    and "sr_id (applyUpdates now u r) = rid \<or> sr_id (applyUpdates now u r) \<notin> set (map sr_id rows)"
  shows "find (\<lambda>x. sr_id x = sr_id (applyUpdates now u r))
           (map (\<lambda>x. if sr_id x = rid then applyUpdates now u x else x) rows)
         = Some (applyUpdates now u r)"
  using assms
proof (induction rows)
  case Nil
  then show ?case by simp
next
  case (Cons x xs)
  show ?case
  proof (cases "sr_id x = rid")
    case True
    with Cons.prems have "x = r" by simp
    with True show ?thesis by simp
  next
    case False
    from Cons.prems have "distinct (map sr_id xs)" by simp
    moreover from False Cons.prems have "find (\<lambda>x. sr_id x = rid) xs = Some r" by simp
    moreover from Cons.prems
    have "sr_id (applyUpdates now u r) = rid
        \<or> sr_id (applyUpdates now u r) \<notin> set (map sr_id xs)"
      by auto
    ultimately have ih: "find (\<lambda>x. sr_id x = sr_id (applyUpdates now u r))
           (map (\<lambda>x. if sr_id x = rid then applyUpdates now u x else x) xs)
         = Some (applyUpdates now u r)"
      by (rule Cons.IH)
    from Cons.prems False have "sr_id x \<noteq> sr_id (applyUpdates now u r)"
      by auto
    with False ih show ?thesis by simp
  qed
qed

lemma find_updated_other:
  assumes "rid' \<noteq> rid"
    and "\<forall>x\<in>set rows. sr_id x = rid' \<longrightarrow> sr_id (applyUpdates now u x) \<noteq> rid"
  shows "find (\<lambda>x. sr_id x = rid) (map (\<lambda>x. if sr_id x = rid' then applyUpdates now u x else x) rows)
         = find (\<lambda>x. sr_id x = rid) rows"
  using assms by (induction rows) auto

lemma find_updated:
  "u_id u = None \<Longrightarrow>
   find (\<lambda>r. sr_id r = rid) (map (\<lambda>r. if sr_id r = rid then applyUpdates now u r else r) rows)
     = map_option (applyUpdates now u) (find (\<lambda>r. sr_id r = rid) rows)"
  by (induction rows) auto

lemma updated_distinct:
  assumes d: "distinct (map sr_id (serviceRequests db))"
    and ok: "\<forall>r\<in>set (serviceRequests db). sr_id r = rid \<longrightarrow> rowError db u r = None"
  shows "distinct (map sr_id
           (map (\<lambda>r. if sr_id r = rid then applyUpdates now u r else r) (serviceRequests db)))"
proof -
  define n where "n = (case u_id u of Some (Some v) \<Rightarrow> v | _ \<Rightarrow> rid)"
  have m: "map sr_id (map (\<lambda>r. if sr_id r = rid then applyUpdates now u r else r)
              (serviceRequests db))
        = map (\<lambda>i. if i = rid then n else i) (map sr_id (serviceRequests db))"
    by (auto simp add: idWritten comp_def n_def)
  have "inj_on (\<lambda>i. if i = rid then n else i) (set (map sr_id (serviceRequests db)))"
  proof (cases "\<exists>r\<in>set (serviceRequests db). sr_id r = rid")
    case True
    then obtain r where r: "r \<in> set (serviceRequests db)" "sr_id r = rid" by blast
    with ok have "rowError db u r = None" by blast
    from rowError_key [OF this, of now]
    have "n = rid \<or> n \<notin> set (map sr_id (serviceRequests db))"
      unfolding idWritten requestIds_def r(2) n_def by simp
    then show ?thesis
      by (auto simp add: inj_on_def split: if_splits)
  next
    case False
    then show ?thesis
      by (auto simp add: inj_on_def)
  qed
  with d show ?thesis
    unfolding m by (simp add: distinct_map del: map_map)
qed

lemma create_intent_requests [simp]:
  "serviceRequests (fst (post_payments_create_intent stripe db now newId srid))
     = serviceRequests db"
  by (simp add: post_payments_create_intent_def createPayment_def Let_def split: option.splits)

lemma confirm_requests [simp]:
  "serviceRequests (fst (post_payments_confirm stripe db userId body)) = serviceRequests db"
  by (simp add: post_payments_confirm_def updatePaymentStatus_def Let_def split: option.splits)

lemma created_row:
  "createServiceRequest db now newId data = Inr (db', row) \<Longrightarrow>
     serviceRequests db' = serviceRequests db @ [row]
     \<and> row = \<lparr> sr_id = newId, clientId = i_clientId data, technicianId = i_technicianId data,
         serviceType = i_serviceType data, description = i_description data,
         location = i_location data,
         status = (case i_status data of None \<Rightarrow> ''pending'' | Some s \<Rightarrow> s),
         quotedPrice = i_quotedPrice data, technicianNotes = i_technicianNotes data,
         images = (case i_images data of None \<Rightarrow> Some [] | Some im \<Rightarrow> im),
         createdAt = now, updatedAt = now \<rparr>"
  by (auto simp add: createServiceRequest_def Let_def split: option.splits)

lemma create_request_rows:
  "serviceRequests (fst (post_service_requests db now newId userId body)) = serviceRequests db
   \<or> (\<exists>data db' row. insertServiceRequestSchema_parse userId body = Some data
        \<and> createServiceRequest db now newId data = Inr (db', row)
        \<and> serviceRequests (fst (post_service_requests db now newId userId body))
            = serviceRequests db @ [row])"
  by (auto simp add: post_service_requests_def split: option.splits sum.splits
      dest: created_row)

lemma technician_job_rows:
  "serviceRequests (fst (post_technician_jobs db now newId userId body)) = serviceRequests db
   \<or> (\<exists>row. serviceRequests (fst (post_technician_jobs db now newId userId body))
            = serviceRequests db @ [row])"
  by (auto simp add: post_technician_jobs_def split: option.splits sum.splits
      dest: created_row)

lemma parsed_fields:
  "insertServiceRequestSchema_parse userId body = Some data \<Longrightarrow>
     i_status data = b_status body \<and> i_technicianId data = b_technicianId body
     \<and> i_clientId data = userId"
  by (auto simp add: insertServiceRequestSchema_parse_def split: option.splits if_splits)


text \<open>
  What one call does to a request that exists, the table's key holding: the request is
  still there, under the id the call writes or else its own; its status and its client are
  the ones the call writes (if it writes any); its creation time is the same.
\<close>

lemma step_request:
  assumes pk: "requestKey db" and r: "getServiceRequest db rid = Some r"
  shows "\<exists>r'. getServiceRequest (api_step db c) (idAfter db rid c) = Some r'
           \<and> status r' = (case writtenStatus db rid c of None \<Rightarrow> status r | Some s \<Rightarrow> s)
           \<and> clientId r' = (case writtenClientId db rid c of None \<Rightarrow> clientId r | Some v \<Rightarrow> v)
           \<and> createdAt r' = createdAt r"
proof (cases c)
  case (CreateRequest now newId userId body)
  from create_request_rows [of db now newId userId body] r
  have "getServiceRequest (api_step db c) rid = Some r"
    unfolding CreateRequest by (auto simp add: getServiceRequest_def find_append_Some)
  then show ?thesis by (simp add: CreateRequest idAfter_def)
next
  case (TechnicianJob now newId userId body)
  from technician_job_rows [of db now newId userId body] r
  have "getServiceRequest (api_step db c) rid = Some r"
    unfolding TechnicianJob by (auto simp add: getServiceRequest_def find_append_Some)
  then show ?thesis by (simp add: TechnicianJob idAfter_def)
next
  case (Patch now rid' userId u)
  from r have rin: "r \<in> set (serviceRequests db)" and rid: "sr_id r = rid"
    by (auto simp add: getServiceRequest_def dest: find_in_set)
  from pk have d: "distinct (map sr_id (serviceRequests db))"
    by (simp add: requestKey_def requestIds_def)
  show ?thesis
  proof (cases "patchApplies db rid' userId u")
    case applies: True
    then have ok: "\<forall>x\<in>set (serviceRequests db). sr_id x = rid' \<longrightarrow> rowError db u x = None"
      by (simp add: patchApplies_def updateError_None)
    have rows: "serviceRequests (api_step db c)
        = map (\<lambda>x. if sr_id x = rid' then applyUpdates now u x else x) (serviceRequests db)"
      using applies by (simp add: Patch patch_applied)
    show ?thesis
    proof (cases "rid' = rid")
      case True
      from ok rin rid True have "rowError db u r = None" by blast
      from rowError_key [OF this, of now]
      have key: "sr_id (applyUpdates now u r) = rid
          \<or> sr_id (applyUpdates now u r) \<notin> set (map sr_id (serviceRequests db))"
        by (simp add: rid requestIds_def)
      have after: "idAfter db rid c = sr_id (applyUpdates now u r)"
        using applies True
        by (simp add: Patch idAfter_def idWritten rid split: option.splits)
      from find_updated_same [OF d _ key] r
      have "getServiceRequest (api_step db c) (idAfter db rid c) = Some (applyUpdates now u r)"
        unfolding after getServiceRequest_def rows True by simp
      with applies True show ?thesis
        by (simp add: Patch applyUpdates_def split: option.splits)
    next
      case False
      have "\<forall>x\<in>set (serviceRequests db). sr_id x = rid' \<longrightarrow> sr_id (applyUpdates now u x) \<noteq> rid"
      proof (intro ballI impI)
        fix x assume x: "x \<in> set (serviceRequests db)" "sr_id x = rid'"
        with ok have "rowError db u x = None" by blast
        from rowError_key [OF this, of now] x False rin rid
        show "sr_id (applyUpdates now u x) \<noteq> rid"
          by (auto simp add: requestIds_def)
      qed
      from find_updated_other [OF False this] r
      have "getServiceRequest (api_step db c) rid = Some r"
        unfolding getServiceRequest_def rows by simp
      with False show ?thesis by (simp add: Patch idAfter_def)
    qed
  next
    case False
    then have "api_step db c = db" by (simp add: Patch patch_not_applied)
    with r False show ?thesis by (auto simp add: Patch idAfter_def)
  qed
next
  case (CreateIntent stripe now newId srid)
  with r show ?thesis by (simp add: getServiceRequest_def idAfter_def)
next
  case (Confirm stripe userId body)
  with r show ?thesis by (simp add: getServiceRequest_def idAfter_def)
qed

section \<open>Matching: the availability listing\<close>

lemma orderByDesc_mset: "mset (orderByDesc col rows) = mset rows"
  by (simp add: orderByDesc_def)

lemma orderByDesc_set: "set (orderByDesc col rows) = set rows"
  by (simp add: orderByDesc_def)

lemma orderByDesc_sorted:
  "sorted_wrt (\<lambda>a b. col b \<le> col a) (orderByDesc col rows)"
proof -
  have "sorted (map col (sort_key col rows))"
    by (rule sorted_sort_key)
  then have "sorted_wrt (\<lambda>a b. col a \<le> col b) (sort_key col rows)"
    by (simp add: sorted_map)
  then show ?thesis
    by (simp add: orderByDesc_def sorted_wrt_rev)
qed

lemma isAvailable_fun: "(\<lambda>r. status r = ''pending'' \<and> technicianId r = None) = isAvailable"
  by (simp add: isAvailable_def fun_eq_iff)

lemma getAvailable_filter:
  "getAvailableServiceRequests db sk =
     filter (matchesSkills sk) (orderByDesc createdAt (filter isAvailable (serviceRequests db)))"
proof (cases sk)
  case None
  then show ?thesis
    by (simp add: getAvailableServiceRequests_def matchesSkills_def isAvailable_fun)
next
  case (Some l)
  show ?thesis
  proof (cases "l = []")
    case True
    with Some show ?thesis
      by (simp add: getAvailableServiceRequests_def matchesSkills_def isAvailable_fun)
  next
    case False
    then have "matchesSkills (Some l) = (\<lambda>req. serviceType req \<in> set l)"
      by (simp add: matchesSkills_def fun_eq_iff)
    with Some False show ?thesis
      by (simp add: getAvailableServiceRequests_def isAvailable_fun)
  qed
qed

text \<open>
  C4. For every skill set, the availability listing holds exactly the rows that are pending
  with no technician and that the skills let through (each as often as the table holds it),
  newest first; with no skills (or an empty list) every such row is listed; and no listed row
  has a technician or a status other than pending.
\<close>

theorem available_listing_exact:
  "mset (getAvailableServiceRequests db sk) =
     filter_mset (\<lambda>r. status r = ''pending'' \<and> technicianId r = None \<and> matchesSkills sk r)
       (mset (serviceRequests db))
   \<and> sorted_wrt (\<lambda>a b. createdAt b \<le> createdAt a) (getAvailableServiceRequests db sk)
   \<and> list_all (\<lambda>r. status r = ''pending'' \<and> technicianId r = None)
       (getAvailableServiceRequests db sk)
   \<and> matchesSkills None = (\<lambda>r. True) \<and> matchesSkills (Some []) = (\<lambda>r. True)
   \<and> matchesSkills (Some (s # ss)) = (\<lambda>r. serviceType r \<in> set (s # ss))"
proof -
  have m: "mset (getAvailableServiceRequests db sk) =
     filter_mset (\<lambda>r. status r = ''pending'' \<and> technicianId r = None \<and> matchesSkills sk r)
       (mset (serviceRequests db))"
    unfolding getAvailable_filter
    by (simp add: orderByDesc_mset isAvailable_def conj_commute conj_left_commute
        filter_filter_mset)
  have s: "sorted_wrt (\<lambda>a b. createdAt b \<le> createdAt a) (getAvailableServiceRequests db sk)"
    unfolding getAvailable_filter
    by (rule sorted_wrt_filter) (rule orderByDesc_sorted)
  have "set (getAvailableServiceRequests db sk) \<subseteq> set (filter isAvailable (serviceRequests db))"
    unfolding getAvailable_filter
    by (auto simp add: orderByDesc_set)
  then have a: "list_all (\<lambda>r. status r = ''pending'' \<and> technicianId r = None)
       (getAvailableServiceRequests db sk)"
    by (auto simp add: list_all_iff isAvailable_def)
  have k: "matchesSkills None = (\<lambda>r. True) \<and> matchesSkills (Some []) = (\<lambda>r. True)
     \<and> matchesSkills (Some (s # ss)) = (\<lambda>r. serviceType r \<in> set (s # ss))"
    by (auto simp add: matchesSkills_def fun_eq_iff)
  from m s a k show ?thesis by blast
qed

theorem available_listing_exact_witness:
  "getAvailableServiceRequests ex_listing_db (Some [''Plumber'']) = [ex_newer, ex_pending]
   \<and> getAvailableServiceRequests ex_listing_db (Some [''plumber'']) = []
   \<and> getAvailableServiceRequests ex_listing_db (Some []) = [ex_newer, ex_electric, ex_pending]
   \<and> getAvailableServiceRequests ex_listing_db None = [ex_newer, ex_electric, ex_pending]
   \<and> mset [ex_newer, ex_pending]
       = filter_mset (\<lambda>r. status r = ''pending'' \<and> technicianId r = None
                          \<and> matchesSkills (Some [''Plumber'']) r)
           (mset (serviceRequests ex_listing_db))
   \<and> sorted_wrt (\<lambda>a b. createdAt b \<le> createdAt a) [ex_newer, ex_pending]"
proof -
  have a: "getAvailableServiceRequests ex_listing_db (Some [''Plumber'']) = [ex_newer, ex_pending]"
    by (simp add: getAvailableServiceRequests_def orderByDesc_def ex_electric_def ex_taken_def
        ex_newer_def ex_listing_db_def ex_defs)
  have b: "getAvailableServiceRequests ex_listing_db (Some [''plumber'']) = []"
    by (simp add: getAvailableServiceRequests_def orderByDesc_def ex_electric_def ex_taken_def
        ex_newer_def ex_listing_db_def ex_defs)
  have c: "getAvailableServiceRequests ex_listing_db (Some []) = [ex_newer, ex_electric, ex_pending]"
    by (simp add: getAvailableServiceRequests_def orderByDesc_def ex_electric_def ex_taken_def
        ex_newer_def ex_listing_db_def ex_defs)
  have d: "getAvailableServiceRequests ex_listing_db None = [ex_newer, ex_electric, ex_pending]"
    by (simp add: getAvailableServiceRequests_def orderByDesc_def ex_electric_def ex_taken_def
        ex_newer_def ex_listing_db_def ex_defs)
  from available_listing_exact [of ex_listing_db "Some [''Plumber'']" "''Plumber''" "[]"]
  have "mset [ex_newer, ex_pending]
       = filter_mset (\<lambda>r. status r = ''pending'' \<and> technicianId r = None
                          \<and> matchesSkills (Some [''Plumber'']) r)
           (mset (serviceRequests ex_listing_db))
   \<and> sorted_wrt (\<lambda>a b. createdAt b \<le> createdAt a) [ex_newer, ex_pending]"
    unfolding a by blast
  with a b c d show ?thesis by blast
qed

text \<open>
  Scenario A of the specification, through the route: the plumber sees the pending plumbing
  request, the electrician does not, and a caller who is not a technician is refused.
\<close>

lemma available_route_scenario:
  "get_service_requests_available (ex_db ex_pending) ''t1'' = Json [ex_pending]
   \<and> get_service_requests_available (ex_db ex_pending) ''t2'' = Json []
   \<and> Forbidden (get_service_requests_available (ex_db ex_pending) ''c1'')"
  by (simp add: get_service_requests_available_def getAvailableServiceRequests_def
      orderByDesc_def getUser_def Forbidden_def ex_defs)

section \<open>Lifecycle: technician and status\<close>

lemma step_create:
  assumes "requestsInvariant db" "lifecycleCall db (CreateRequest now newId userId body)"
  shows "requestsInvariant (api_step db (CreateRequest now newId userId body))"
  using assms create_request_rows [of db now newId userId body]
  by (auto simp add: requestsInvariant_def technicianInvariant_def
      dest!: parsed_fields created_row)

lemma step_patch:
  assumes inv: "requestsInvariant db" and lc: "lifecycleCall db (Patch now rid userId u)"
  shows "requestsInvariant (api_step db (Patch now rid userId u))"
proof (cases "patchApplies db rid userId u")
  case False
  with inv show ?thesis by (simp add: patch_not_applied)
next
  case True
  let ?rows = "map (\<lambda>r. if sr_id r = rid then applyUpdates now u r else r) (serviceRequests db)"
  from inv have d: "distinct (map sr_id (serviceRequests db))"
    by (simp add: requestsInvariant_def)
  from True have ok: "\<forall>r\<in>set (serviceRequests db). sr_id r = rid \<longrightarrow> rowError db u r = None"
    by (simp add: patchApplies_def updateError_None)
  from updated_distinct [OF d ok]
  have dist: "distinct (map sr_id ?rows)" .
  have each: "technicianInvariant (applyUpdates now u r)"
    if r: "r \<in> set (serviceRequests db)" "sr_id r = rid" for r
  proof -
    from lc consider
      (accept) "u_technicianId u = Some (Some userId)" "u_status u = Some (Some ''accepted'')"
      | (advance) "u_technicianId u = None"
          "u_status u = Some (Some ''in_progress'') \<or> u_status u = Some (Some ''completed'')"
          "boundTechnician db rid userId"
      by auto
    then show ?thesis
    proof cases
      case accept
      then show ?thesis by (simp add: technicianInvariant_def applyUpdates_def)
    next
      case advance
      from advance(3) obtain r0 where r0: "getServiceRequest db rid = Some r0"
        "technicianId r0 = Some userId"
        by (auto simp add: boundTechnician_def split: option.splits)
      from d r0(1) r have "r = r0"
        by (auto simp add: getServiceRequest_def intro: find_distinct_key [where key = sr_id])
      with r0 advance show ?thesis
        by (auto simp add: technicianInvariant_def applyUpdates_def)
    qed
  qed
  from inv have "list_all technicianInvariant ?rows"
    using each by (auto simp add: requestsInvariant_def list_all_iff)
  with dist have "requestsInvariant (db\<lparr>serviceRequests := ?rows\<rparr>)"
    unfolding requestsInvariant_def by (simp del: map_map)
  with True show ?thesis
    by (simp add: patch_applied)
qed

lemma step_preserves:
  "requestsInvariant db \<Longrightarrow> lifecycleCall db c \<Longrightarrow> requestsInvariant (api_step db c)"
proof (cases c)
  case (CreateRequest now newId userId body)
  then show "requestsInvariant db \<Longrightarrow> lifecycleCall db c \<Longrightarrow> ?thesis"
    by (simp only: step_create)
next
  case (Patch now rid userId u)
  then show "requestsInvariant db \<Longrightarrow> lifecycleCall db c \<Longrightarrow> ?thesis"
    by (simp only: step_patch)
qed (simp_all add: requestsInvariant_def)

text \<open>
  C1, as the code has it. Starting from a table in which every request has a technician
  exactly when its status is neither pending nor cancelled, every sequence of lifecycle calls
  keeps it so: creating a request whose body names neither a status nor a technician,
  the accept update, the start and complete updates when the bound technician sends them,
  and the payment calls. Technician job creation and the other PATCH bodies are not among
  these calls.
\<close>

theorem lifecycle_keeps_technician_invariant:
  "requestsInvariant db \<Longrightarrow> lifecycleCalls db cs \<Longrightarrow> requestsInvariant (run db cs)"
  by (induction cs arbitrary: db) (simp_all add: step_preserves)

theorem lifecycle_keeps_technician_invariant_witness:
  "requestsInvariant ex_db0 \<and> lifecycleCalls ex_db0 ex_lifecycle
   \<and> requestsInvariant (run ex_db0 ex_lifecycle)
   \<and> map (\<lambda>r. (status r, technicianId r)) (serviceRequests (run ex_db0 ex_lifecycle))
       = [(''completed'', Some ''t1'')]"
proof -
  have a: "requestsInvariant ex_db0"
    by (simp add: requestsInvariant_def ex_defs)
  have b: "lifecycleCalls ex_db0 ex_lifecycle"
    by (simp add: ex_lifecycle_def ex_body_def ex_defs route_defs boundTechnician_def)
  have c: "map (\<lambda>r. (status r, technicianId r)) (serviceRequests (run ex_db0 ex_lifecycle))
       = [(''completed'', Some ''t1'')]"
    by (simp add: ex_lifecycle_def ex_body_def ex_defs route_defs)
  from a b c lifecycle_keeps_technician_invariant [OF a b] show ?thesis by blast
qed

text \<open>
  C1 as stated fails: a job that a technician creates is pending and already carries the
  technician, and a status sent by the owning client moves a request with no technician to
  in_progress.
\<close>

theorem technician_job_breaks_invariant:
  "requestsInvariant ex_db0
   \<and> map (\<lambda>r. (status r, technicianId r))
        (serviceRequests (api_step ex_db0 (TechnicianJob 1 ''j1'' ''t1'' ex_job)))
       = [(''pending'', Some ''t1'')]
   \<and> \<not> requestsInvariant (api_step ex_db0 (TechnicianJob 1 ''j1'' ''t1'' ex_job))
   \<and> requestsInvariant (ex_db ex_pending)
   \<and> map (\<lambda>r. (status r, technicianId r))
        (serviceRequests (api_step (ex_db ex_pending)
           (Patch 2 ''r1'' ''c1'' (updateStatusBody ''in_progress''))))
       = [(''in_progress'', None)]
   \<and> \<not> requestsInvariant (api_step (ex_db ex_pending)
           (Patch 2 ''r1'' ''c1'' (updateStatusBody ''in_progress'')))"
  by (simp add: ex_job_def ex_defs route_defs requestsInvariant_def technicianInvariant_def)

section \<open>Lifecycle: terminal states\<close>

text \<open>
  C2, as the code has it. The table's key holding, a request in a terminal state
  (completed or cancelled) is still there after any call, under its id or under the id the
  call gives it, and its status is the same unless the call is a PATCH on it, by its client
  or its technician, that the database takes and that carries a status; then its status is
  the one the PATCH carries, whatever it is. A PATCH that is refused (404, 403, or 500 when
  the database does not take it) leaves the status as it was.
\<close>

theorem terminal_status_changes_only_by_patch:
  "requestKey db \<Longrightarrow> getServiceRequest db rid = Some r \<Longrightarrow> terminal (status r) \<Longrightarrow>
     \<exists>r'. getServiceRequest (api_step db c) (idAfter db rid c) = Some r'
        \<and> status r' = (case writtenStatus db rid c of None \<Rightarrow> status r | Some s \<Rightarrow> s)"
  using step_request [of db rid r c] by blast

theorem terminal_status_changes_only_by_patch_witness:
  "requestKey (ex_db ex_completed)
   \<and> getServiceRequest (ex_db ex_completed) ''r1'' = Some ex_completed
   \<and> terminal (status ex_completed)
   \<and> (\<exists>r'. getServiceRequest
              (api_step (ex_db ex_completed) (Patch 9 ''r1'' ''t2'' (updateStatusBody ''pending'')))
              ''r1'' = Some r'
          \<and> status r' = ''completed'')
   \<and> (\<exists>r'. getServiceRequest
              (api_step (ex_db ex_completed)
                 (Patch 9 ''r1'' ''c1''
                    ((updateStatusBody ''pending'')\<lparr> u_technicianId := Some (Some ''nobody'') \<rparr>)))
              ''r1'' = Some r'
          \<and> status r' = ''completed'')
   \<and> (\<exists>r'. getServiceRequest
              (api_step (ex_db ex_completed)
                 (Patch 9 ''r1'' ''c1'' (noUpdates\<lparr> u_id := Some (Some ''r9'') \<rparr>)))
              ''r9'' = Some r'
          \<and> status r' = ''completed'')"
proof -
  let ?stranger = "Patch 9 ''r1'' ''t2'' (updateStatusBody ''pending'')"
  let ?refused = "Patch 9 ''r1'' ''c1''
       ((updateStatusBody ''pending'')\<lparr> u_technicianId := Some (Some ''nobody'') \<rparr>)"
  let ?renamed = "Patch 9 ''r1'' ''c1'' (noUpdates\<lparr> u_id := Some (Some ''r9'') \<rparr>)"
  have k: "requestKey (ex_db ex_completed)"
    by (simp add: requestKey_def requestIds_def ex_defs)
  have a: "getServiceRequest (ex_db ex_completed) ''r1'' = Some ex_completed"
    by (simp add: getServiceRequest_def ex_defs)
  have b: "terminal (status ex_completed)"
    by (simp add: terminal_def ex_defs)
  have c: "writtenStatus (ex_db ex_completed) ''r1'' ?stranger = None
      \<and> idAfter (ex_db ex_completed) ''r1'' ?stranger = ''r1''
      \<and> writtenStatus (ex_db ex_completed) ''r1'' ?refused = None
      \<and> idAfter (ex_db ex_completed) ''r1'' ?refused = ''r1''
      \<and> writtenStatus (ex_db ex_completed) ''r1'' ?renamed = None
      \<and> idAfter (ex_db ex_completed) ''r1'' ?renamed = ''r9''"
    by (simp add: idAfter_def patchApplies_def mayUpdate_def storage_defs ex_defs)
  have d: "status ex_completed = ''completed''"
    by (simp add: ex_defs)
  note t = terminal_status_changes_only_by_patch [OF k a b]
  from t [of ?stranger] t [of ?refused] t [of ?renamed]
  have "(\<exists>r'. getServiceRequest (api_step (ex_db ex_completed) ?stranger) ''r1'' = Some r'
          \<and> status r' = ''completed'')
     \<and> (\<exists>r'. getServiceRequest (api_step (ex_db ex_completed) ?refused) ''r1'' = Some r'
          \<and> status r' = ''completed'')
     \<and> (\<exists>r'. getServiceRequest (api_step (ex_db ex_completed) ?renamed) ''r9'' = Some r'
          \<and> status r' = ''completed'')"
    using c d by simp
  with k a b show ?thesis by blast
qed

text \<open>
  C2 as stated fails: the client of a completed request sends the status pending, and the
  request is pending again.
\<close>

theorem completed_request_reopened:
  "terminal (status ex_completed)
   \<and> getServiceRequest (ex_db ex_completed) ''r1'' = Some ex_completed
   \<and> map status (serviceRequests
        (api_step (ex_db ex_completed) (Patch 9 ''r1'' ''c1'' (updateStatusBody ''pending''))))
       = [''pending'']"
  by (simp add: ex_defs route_defs terminal_def)

section \<open>Lifecycle: accepting a request\<close>

lemma accept_applied:
  "applyUpdates now (acceptJobBody userId) r
     = r\<lparr> technicianId := Some userId, status := ''accepted'', updatedAt := now \<rparr>"
  by (simp add: applyUpdates_def acceptJobBody_def noUpdates_def)

lemma patch_error_codes:
  "errorCode (snd (patch_service_request db now rid userId u))
     \<in> {None, Some 403, Some 404, Some 500}"
  by (simp add: patch_cases)

lemma accept_taken:
  "getUser db userId \<noteq> None \<Longrightarrow> updateError db rid (acceptJobBody userId) = None"
  using getUser_userIds [of db userId]
  by (auto simp add: updateError_None valueError_def rowError_def acceptJobBody_def noUpdates_def)

lemma accept_same_id [simp]: "u_id (acceptJobBody userId) = None"
  by (simp add: acceptJobBody_def noUpdates_def)

text \<open>
  C3, as the code has it. The accept update answers NotFound when the request does not exist
  or the caller has no user row; Forbidden when the caller is neither the client nor the
  technician of the request, whatever the caller's role and whatever the status of the
  request; otherwise it is applied: the caller becomes the technician and the status becomes
  accepted. It never answers Conflict. After T1 has accepted, an attempt of another
  technician T2, who is not the client of the request, is Forbidden and the request is as it
  was, with T1 its technician.
\<close>

theorem accept_outcomes:
  "(\<forall>db now rid userId.
      getServiceRequest db rid = None \<longrightarrow>
        NotFound (snd (acceptJobMutation db now rid userId))
        \<and> fst (acceptJobMutation db now rid userId) = db)
   \<and> (\<forall>db now rid userId r.
        getServiceRequest db rid = Some r \<and> getUser db userId = None \<longrightarrow>
          NotFound (snd (acceptJobMutation db now rid userId))
          \<and> fst (acceptJobMutation db now rid userId) = db)
   \<and> (\<forall>db now rid userId r.
        getServiceRequest db rid = Some r \<and> getUser db userId \<noteq> None
        \<and> clientId r \<noteq> userId \<and> technicianId r \<noteq> Some userId \<longrightarrow>
          Forbidden (snd (acceptJobMutation db now rid userId))
          \<and> fst (acceptJobMutation db now rid userId) = db)
   \<and> (\<forall>db now rid userId r.
        getServiceRequest db rid = Some r \<and> getUser db userId \<noteq> None
        \<and> (clientId r = userId \<or> technicianId r = Some userId) \<longrightarrow>
          snd (acceptJobMutation db now rid userId)
            = Json (Some (r\<lparr> technicianId := Some userId, status := ''accepted'',
                             updatedAt := now \<rparr>))
          \<and> getServiceRequest (fst (acceptJobMutation db now rid userId)) rid
            = Some (r\<lparr> technicianId := Some userId, status := ''accepted'',
                       updatedAt := now \<rparr>))
   \<and> (\<forall>db now rid userId. \<not> Conflict (snd (acceptJobMutation db now rid userId)))
   \<and> (\<forall>db now rid T1 T2 r.
        getServiceRequest db rid = Some r \<and> technicianId r = Some T1
        \<and> T2 \<noteq> T1 \<and> T2 \<noteq> clientId r \<and> getUser db T2 \<noteq> None \<longrightarrow>
          Forbidden (snd (acceptJobMutation db now rid T2))
          \<and> getServiceRequest (fst (acceptJobMutation db now rid T2)) rid = Some r
          \<and> technicianId r = Some T1)"
proof (intro conjI allI impI)
  fix db now rid userId
  assume "getServiceRequest db rid = None"
  then show "NotFound (snd (acceptJobMutation db now rid userId))"
    and "fst (acceptJobMutation db now rid userId) = db"
    by (simp_all add: acceptJobMutation_def patch_cases NotFound_def)
next
  fix db now rid userId r
  assume "getServiceRequest db rid = Some r \<and> getUser db userId = None"
  then show "NotFound (snd (acceptJobMutation db now rid userId))"
    and "fst (acceptJobMutation db now rid userId) = db"
    by (simp_all add: acceptJobMutation_def patch_cases NotFound_def)
next
  fix db now rid userId r
  assume h: "getServiceRequest db rid = Some r \<and> getUser db userId \<noteq> None
        \<and> clientId r \<noteq> userId \<and> technicianId r \<noteq> Some userId"
  then have "\<not> mayUpdate db rid userId"
    by (simp add: mayUpdate_iff)
  with h show "Forbidden (snd (acceptJobMutation db now rid userId))"
    and "fst (acceptJobMutation db now rid userId) = db"
    by (simp_all add: acceptJobMutation_def patch_cases Forbidden_def)
next
  fix db now rid userId r
  assume h: "getServiceRequest db rid = Some r \<and> getUser db userId \<noteq> None
        \<and> (clientId r = userId \<or> technicianId r = Some userId)"
  then have m: "patchApplies db rid userId (acceptJobBody userId)"
    by (simp add: patchApplies_def mayUpdate_iff accept_taken)
  with h show "snd (acceptJobMutation db now rid userId)
            = Json (Some (r\<lparr> technicianId := Some userId, status := ''accepted'',
                             updatedAt := now \<rparr>))"
    by (simp add: acceptJobMutation_def patch_applied accept_applied)
  from h m show "getServiceRequest (fst (acceptJobMutation db now rid userId)) rid
            = Some (r\<lparr> technicianId := Some userId, status := ''accepted'',
                       updatedAt := now \<rparr>)"
    by (simp add: acceptJobMutation_def patch_applied accept_applied getServiceRequest_def
        find_updated)
next
  fix db now rid userId
  show "\<not> Conflict (snd (acceptJobMutation db now rid userId))"
    using patch_error_codes [of db now rid userId "acceptJobBody userId"]
    by (auto simp add: Conflict_def acceptJobMutation_def)
next
  fix db now rid T1 T2 r
  assume h: "getServiceRequest db rid = Some r \<and> technicianId r = Some T1
        \<and> T2 \<noteq> T1 \<and> T2 \<noteq> clientId r \<and> getUser db T2 \<noteq> None"
  then have n: "\<not> mayUpdate db rid T2"
    by (auto simp add: mayUpdate_iff)
  with h show "Forbidden (snd (acceptJobMutation db now rid T2))"
    by (simp add: acceptJobMutation_def patch_cases Forbidden_def)
  from n have "fst (acceptJobMutation db now rid T2) = db"
    by (simp add: acceptJobMutation_def patch_denied)
  with h show "getServiceRequest (fst (acceptJobMutation db now rid T2)) rid = Some r"
    by simp
  from h show "technicianId r = Some T1" by simp
qed

theorem accept_outcomes_witness:
  "NotFound (snd (acceptJobMutation (ex_db ex_accepted) 5 ''r9'' ''t2''))
   \<and> NotFound (snd (acceptJobMutation (ex_db ex_accepted) 5 ''r1'' ''t9''))
   \<and> Forbidden (snd (acceptJobMutation (ex_db ex_pending) 2 ''r1'' ''t1''))
   \<and> snd (acceptJobMutation (ex_db ex_pending) 2 ''r1'' ''c1'')
        = Json (Some (ex_pending\<lparr> technicianId := Some ''c1'', status := ''accepted'',
                                   updatedAt := 2 \<rparr>))
   \<and> \<not> Conflict (snd (acceptJobMutation (ex_db ex_accepted) 5 ''r1'' ''t2''))
   \<and> Forbidden (snd (acceptJobMutation (ex_db ex_accepted) 5 ''r1'' ''t2''))
   \<and> getServiceRequest (fst (acceptJobMutation (ex_db ex_accepted) 5 ''r1'' ''t2'')) ''r1''
        = Some ex_accepted
   \<and> technicianId ex_accepted = Some ''t1''"
proof -
  have none: "getServiceRequest (ex_db ex_accepted) ''r9'' = None"
    by (simp add: getServiceRequest_def ex_defs)
  have nouser: "getServiceRequest (ex_db ex_accepted) ''r1'' = Some ex_accepted
      \<and> getUser (ex_db ex_accepted) ''t9'' = None"
    by (simp add: getServiceRequest_def getUser_def ex_defs)
  have stranger: "getServiceRequest (ex_db ex_pending) ''r1'' = Some ex_pending
      \<and> getUser (ex_db ex_pending) ''t1'' \<noteq> None
      \<and> clientId ex_pending \<noteq> ''t1'' \<and> technicianId ex_pending \<noteq> Some ''t1''"
    by (simp add: getServiceRequest_def getUser_def ex_defs)
  have owner: "getServiceRequest (ex_db ex_pending) ''r1'' = Some ex_pending
      \<and> getUser (ex_db ex_pending) ''c1'' \<noteq> None
      \<and> (clientId ex_pending = ''c1'' \<or> technicianId ex_pending = Some ''c1'')"
    by (simp add: getServiceRequest_def getUser_def ex_defs)
  have second: "getServiceRequest (ex_db ex_accepted) ''r1'' = Some ex_accepted
      \<and> technicianId ex_accepted = Some ''t1''
      \<and> ''t2'' \<noteq> ''t1'' \<and> ''t2'' \<noteq> clientId ex_accepted
      \<and> getUser (ex_db ex_accepted) ''t2'' \<noteq> None"
    by (simp add: getServiceRequest_def getUser_def ex_defs)
  note t = accept_outcomes
  from t [THEN conjunct1, rule_format, OF none]
    t [THEN conjunct2, THEN conjunct1, rule_format, OF nouser]
    t [THEN conjunct2, THEN conjunct2, THEN conjunct1, rule_format, OF stranger]
    t [THEN conjunct2, THEN conjunct2, THEN conjunct2, THEN conjunct1, rule_format, OF owner]
    t [THEN conjunct2, THEN conjunct2, THEN conjunct2, THEN conjunct2, THEN conjunct1,
       rule_format, of "ex_db ex_accepted" 5 "''r1''" "''t2''"]
    t [THEN conjunct2, THEN conjunct2, THEN conjunct2, THEN conjunct2, THEN conjunct2,
       rule_format, OF second]
  show ?thesis by blast
qed

text \<open>
  C3 as stated fails: the technician of an accepted request accepts it again and the update
  is applied (neither Forbidden nor Conflict), and a caller of role client accepts the
  request they own.
\<close>

theorem accept_by_bound_technician_succeeds:
  "technicianId ex_accepted = Some ''t1'' \<and> status ex_accepted = ''accepted''
   \<and> snd (acceptJobMutation (ex_db ex_accepted) 5 ''r1'' ''t1'')
        = Json (Some (ex_accepted\<lparr> updatedAt := 5 \<rparr>))
   \<and> \<not> Forbidden (snd (acceptJobMutation (ex_db ex_accepted) 5 ''r1'' ''t1''))
   \<and> \<not> Conflict (snd (acceptJobMutation (ex_db ex_accepted) 5 ''r1'' ''t1''))
   \<and> userType ex_c1 = Some client
   \<and> getUser (ex_db ex_pending) ''c1'' = Some ex_c1
   \<and> snd (acceptJobMutation (ex_db ex_pending) 2 ''r1'' ''c1'')
        = Json (Some (ex_pending\<lparr> technicianId := Some ''c1'', status := ''accepted'',
                                   updatedAt := 2 \<rparr>))"
  by (simp add: acceptJobMutation_def ex_defs route_defs Forbidden_def Conflict_def)

section \<open>Lifecycle: completing a request\<close>



lemma complete_same_id [simp]: "u_id (completeJobBody price summary) = None"
  by (simp add: completeJobBody_def noUpdates_def)




section \<open>The generic update\<close>

text \<open>When the key holds, the update meets one row, and the database takes it or not by that row.\<close>

lemma updateError_one_row:
  assumes "requestKey db" "getServiceRequest db rid = Some r"
  shows "(updateError db rid u = None) = (valueError u = None \<and> rowError db u r = None)"
proof -
  from assms have "filter (\<lambda>x. sr_id x = rid) (serviceRequests db) = [r]"
    by (simp add: requestKey_def requestIds_def getServiceRequest_def filter_distinct_key)
  then have "set (filter (\<lambda>x. sr_id x = rid) (serviceRequests db)) = {r}"
    by simp
  then have one: "(x \<in> set (serviceRequests db) \<and> sr_id x = rid) = (x = r)" for x
    by (auto simp add: set_eq_iff)
  have "(\<forall>x\<in>set (serviceRequests db). sr_id x = rid \<longrightarrow> rowError db u x = None)
      = (rowError db u r = None)"
  proof
    assume a: "\<forall>x\<in>set (serviceRequests db). sr_id x = rid \<longrightarrow> rowError db u x = None"
    from one [of r] have "r \<in> set (serviceRequests db) \<and> sr_id r = rid" by simp
    with a show "rowError db u r = None" by blast
  next
    assume b: "rowError db u r = None"
    show "\<forall>x\<in>set (serviceRequests db). sr_id x = rid \<longrightarrow> rowError db u x = None"
    proof (intro ballI impI)
      fix x assume "x \<in> set (serviceRequests db)" "sr_id x = rid"
      with one [of x] have "x = r" by simp
      with b show "rowError db u x = None" by simp
    qed
  qed
  then show ?thesis
    by (simp add: updateError_None)
qed

text \<open>
  C9, as the code has it. A PATCH by the client or the technician of the request that the
  database takes answers with the merged row and stores it: every column the body carries
  (id, client, technician, service type, description, location, status, price, notes,
  images) replaces the stored one, a column the body leaves out stays, the status is stored
  whatever string it is, updatedAt is the time of the call and createdAt stays; users and
  payments are untouched. A PATCH that the database does not take is answered 500 and
  changes nothing. The database takes it exactly when the body has no createdAt and no
  \<^verbatim>\<open>null\<close> for id, client, service type, description, location or status, a price
  fits 32 bits, a new id is free and no payment names the old one, and a new client or
  technician is a user. The client of a request stays the same under every call except such
  a PATCH that carries a clientId.
\<close>

theorem generic_patch_merges:
  "(\<forall>db now rid userId u r.
      getServiceRequest db rid = Some r \<and> mayUpdate db rid userId
      \<and> updateError db rid u = None \<longrightarrow>
        snd (patch_service_request db now rid userId u) = Json (Some (applyUpdates now u r))
        \<and> serviceRequests (fst (patch_service_request db now rid userId u))
            = map (\<lambda>x. if sr_id x = rid then applyUpdates now u x else x) (serviceRequests db)
        \<and> users (fst (patch_service_request db now rid userId u)) = users db
        \<and> payments (fst (patch_service_request db now rid userId u)) = payments db)
   \<and> (\<forall>db now rid userId u.
        mayUpdate db rid userId \<and> updateError db rid u \<noteq> None \<longrightarrow>
          patch_service_request db now rid userId u
            = (db, Error 500 ''Failed to update service request''))
   \<and> (\<forall>now u r.
        updatedAt (applyUpdates now u r) = now
        \<and> createdAt (applyUpdates now u r) = createdAt r
        \<and> sr_id (applyUpdates now u r) = (case u_id u of Some (Some v) \<Rightarrow> v | _ \<Rightarrow> sr_id r)
        \<and> clientId (applyUpdates now u r)
            = (case u_clientId u of Some (Some v) \<Rightarrow> v | _ \<Rightarrow> clientId r)
        \<and> technicianId (applyUpdates now u r)
            = (case u_technicianId u of None \<Rightarrow> technicianId r | Some v \<Rightarrow> v)
        \<and> serviceType (applyUpdates now u r)
            = (case u_serviceType u of Some (Some v) \<Rightarrow> v | _ \<Rightarrow> serviceType r)
        \<and> description (applyUpdates now u r)
            = (case u_description u of Some (Some v) \<Rightarrow> v | _ \<Rightarrow> description r)
        \<and> location (applyUpdates now u r)
            = (case u_location u of Some (Some v) \<Rightarrow> v | _ \<Rightarrow> location r)
        \<and> status (applyUpdates now u r)
            = (case u_status u of Some (Some v) \<Rightarrow> v | _ \<Rightarrow> status r)
        \<and> quotedPrice (applyUpdates now u r)
            = (case u_quotedPrice u of None \<Rightarrow> quotedPrice r | Some v \<Rightarrow> v)
        \<and> technicianNotes (applyUpdates now u r)
            = (case u_technicianNotes u of None \<Rightarrow> technicianNotes r | Some v \<Rightarrow> v)
        \<and> images (applyUpdates now u r) = (case u_images u of None \<Rightarrow> images r | Some v \<Rightarrow> v))
   \<and> (\<forall>db rid u r.
        requestKey db \<and> getServiceRequest db rid = Some r \<longrightarrow>
          (updateError db rid u = None)
            = (u_createdAt u = None
               \<and> u_id u \<noteq> Some None \<and> u_clientId u \<noteq> Some None
               \<and> u_serviceType u \<noteq> Some None \<and> u_description u \<noteq> Some None
               \<and> u_location u \<noteq> Some None \<and> u_status u \<noteq> Some None
               \<and> (case u_quotedPrice u of Some (Some p) \<Rightarrow> int4 p | _ \<Rightarrow> True)
               \<and> (case u_id u of
                     Some (Some v) \<Rightarrow>
                       v = rid \<or> (v \<notin> set (requestIds db)
                                  \<and> rid \<notin> set (map serviceRequestId (payments db)))
                   | _ \<Rightarrow> True)
               \<and> (case u_clientId u of
                     Some (Some c) \<Rightarrow> c = clientId r \<or> c \<in> set (userIds db)
                   | _ \<Rightarrow> True)
               \<and> (case u_technicianId u of
                     Some (Some t) \<Rightarrow> technicianId r = Some t \<or> t \<in> set (userIds db)
                   | _ \<Rightarrow> True)))
   \<and> (\<forall>db rid r c.
        requestKey db \<and> getServiceRequest db rid = Some r
        \<and> writtenClientId db rid c = None \<longrightarrow>
          (\<exists>r'. getServiceRequest (api_step db c) (idAfter db rid c) = Some r'
             \<and> clientId r' = clientId r))"
proof (intro conjI allI impI)
  fix db now rid userId u r
  assume h: "getServiceRequest db rid = Some r \<and> mayUpdate db rid userId
      \<and> updateError db rid u = None"
  then have m: "patchApplies db rid userId u"
    by (simp add: patchApplies_def)
  from h show "snd (patch_service_request db now rid userId u)
      = Json (Some (applyUpdates now u r))"
    by (simp add: patch_applied [OF m])
  show "serviceRequests (fst (patch_service_request db now rid userId u))
            = map (\<lambda>x. if sr_id x = rid then applyUpdates now u x else x) (serviceRequests db)"
    by (simp add: patch_applied [OF m])
  show "users (fst (patch_service_request db now rid userId u)) = users db"
    by (simp add: patch_applied [OF m])
  show "payments (fst (patch_service_request db now rid userId u)) = payments db"
    by (simp add: patch_applied [OF m])
next
  fix db now rid userId u
  assume "mayUpdate db rid userId \<and> updateError db rid u \<noteq> None"
  then show "patch_service_request db now rid userId u
            = (db, Error 500 ''Failed to update service request'')"
    by (simp add: patch_refused)
next
  fix db rid u r
  assume h: "requestKey db \<and> getServiceRequest db rid = Some r"
  then have rid: "sr_id r = rid"
    by (auto simp add: getServiceRequest_def dest: find_in_set)
  from h have "(updateError db rid u = None) = (valueError u = None \<and> rowError db u r = None)"
    by (simp add: updateError_one_row)
  also have "\<dots> = (u_createdAt u = None
               \<and> u_id u \<noteq> Some None \<and> u_clientId u \<noteq> Some None
               \<and> u_serviceType u \<noteq> Some None \<and> u_description u \<noteq> Some None
               \<and> u_location u \<noteq> Some None \<and> u_status u \<noteq> Some None
               \<and> (case u_quotedPrice u of Some (Some p) \<Rightarrow> int4 p | _ \<Rightarrow> True)
               \<and> (case u_id u of
                     Some (Some v) \<Rightarrow>
                       v = rid \<or> (v \<notin> set (requestIds db)
                                  \<and> rid \<notin> set (map serviceRequestId (payments db)))
                   | _ \<Rightarrow> True)
               \<and> (case u_clientId u of
                     Some (Some c) \<Rightarrow> c = clientId r \<or> c \<in> set (userIds db)
                   | _ \<Rightarrow> True)
               \<and> (case u_technicianId u of
                     Some (Some t) \<Rightarrow> technicianId r = Some t \<or> t \<in> set (userIds db)
                   | _ \<Rightarrow> True))"
    unfolding valueError_def rowError_def rid
    by (cases "u_createdAt u"; cases "u_quotedPrice u"; cases "u_id u"; cases "u_clientId u";
        cases "u_technicianId u")
       (auto split: option.splits)
  finally show "(updateError db rid u = None)
            = (u_createdAt u = None
               \<and> u_id u \<noteq> Some None \<and> u_clientId u \<noteq> Some None
               \<and> u_serviceType u \<noteq> Some None \<and> u_description u \<noteq> Some None
               \<and> u_location u \<noteq> Some None \<and> u_status u \<noteq> Some None
               \<and> (case u_quotedPrice u of Some (Some p) \<Rightarrow> int4 p | _ \<Rightarrow> True)
               \<and> (case u_id u of
                     Some (Some v) \<Rightarrow>
                       v = rid \<or> (v \<notin> set (requestIds db)
                                  \<and> rid \<notin> set (map serviceRequestId (payments db)))
                   | _ \<Rightarrow> True)
               \<and> (case u_clientId u of
                     Some (Some c) \<Rightarrow> c = clientId r \<or> c \<in> set (userIds db)
                   | _ \<Rightarrow> True)
               \<and> (case u_technicianId u of
                     Some (Some t) \<Rightarrow> technicianId r = Some t \<or> t \<in> set (userIds db)
                   | _ \<Rightarrow> True))" .
next
  fix db rid r c
  assume h: "requestKey db \<and> getServiceRequest db rid = Some r
      \<and> writtenClientId db rid c = None"
  with step_request [of db rid r c]
  show "\<exists>r'. getServiceRequest (api_step db c) (idAfter db rid c) = Some r'
      \<and> clientId r' = clientId r"
    by auto
qed (simp_all add: applyUpdates_def)

theorem generic_patch_merges_witness:
  "getServiceRequest (ex_db ex_accepted) ''r1'' = Some ex_accepted
   \<and> mayUpdate (ex_db ex_accepted) ''r1'' ''t1''
   \<and> snd (patch_service_request (ex_db ex_accepted) 3 ''r1'' ''t1'' (updateStatusBody ''in_progress''))
        = Json (Some ex_in_progress)
   \<and> serviceRequests
        (fst (patch_service_request (ex_db ex_accepted) 3 ''r1'' ''t1''
               (updateStatusBody ''in_progress'')))
        = [ex_in_progress]
   \<and> patch_service_request (ex_db ex_accepted) 3 ''r1'' ''c1''
        ((updateStatusBody ''in_progress'')\<lparr> u_technicianId := Some (Some ''nobody'') \<rparr>)
        = (ex_db ex_accepted, Error 500 ''Failed to update service request'')
   \<and> updatedAt (applyUpdates 3 (updateStatusBody ''in_progress'') ex_accepted) = 3
   \<and> requestKey (ex_db ex_accepted)
   \<and> updateError (ex_db ex_accepted) ''r1'' (noUpdates\<lparr> u_id := Some (Some ''r9'') \<rparr>) = None
   \<and> (\<exists>r'. getServiceRequest
               (api_step (ex_db ex_accepted) (Patch 3 ''r1'' ''t1'' (updateStatusBody ''in_progress'')))
               ''r1'' = Some r'
          \<and> clientId r' = ''c1'')"
proof -
  let ?start = "updateStatusBody ''in_progress''"
  let ?bad = "(updateStatusBody ''in_progress'')\<lparr> u_technicianId := Some (Some ''nobody'') \<rparr>"
  let ?rename = "noUpdates\<lparr> u_id := Some (Some ''r9'') \<rparr>"
  have a: "getServiceRequest (ex_db ex_accepted) ''r1'' = Some ex_accepted
      \<and> mayUpdate (ex_db ex_accepted) ''r1'' ''t1''
      \<and> updateError (ex_db ex_accepted) ''r1'' ?start = None"
    by (simp add: mayUpdate_def storage_defs ex_defs)
  have a': "getServiceRequest (ex_db ex_accepted) ''r1'' = Some ex_accepted
      \<and> mayUpdate (ex_db ex_accepted) ''r1'' ''t1''"
    using a by simp
  have b: "applyUpdates 3 ?start ex_accepted = ex_in_progress"
    by (simp add: applyUpdates_def ex_defs)
  have bad: "mayUpdate (ex_db ex_accepted) ''r1'' ''c1''
      \<and> updateError (ex_db ex_accepted) ''r1'' ?bad \<noteq> None"
    by (simp add: mayUpdate_def storage_defs ex_defs)
  have k: "requestKey (ex_db ex_accepted)
      \<and> getServiceRequest (ex_db ex_accepted) ''r1'' = Some ex_accepted"
    by (simp add: requestKey_def storage_defs ex_defs)
  have c: "requestKey (ex_db ex_accepted)
      \<and> getServiceRequest (ex_db ex_accepted) ''r1'' = Some ex_accepted
      \<and> writtenClientId (ex_db ex_accepted) ''r1'' (Patch 3 ''r1'' ''t1'' ?start) = None"
    using k by (simp add: updateStatusBody_def noUpdates_def)
  have d: "clientId ex_accepted = ''c1''
      \<and> idAfter (ex_db ex_accepted) ''r1'' (Patch 3 ''r1'' ''t1'' ?start) = ''r1''"
    by (simp add: idAfter_def ex_defs)
  note t = generic_patch_merges
  from t [THEN conjunct1, rule_format, OF a, of 3]
  have e: "snd (patch_service_request (ex_db ex_accepted) 3 ''r1'' ''t1'' ?start)
        = Json (Some ex_in_progress)
     \<and> serviceRequests (fst (patch_service_request (ex_db ex_accepted) 3 ''r1'' ''t1'' ?start))
        = [ex_in_progress]"
    unfolding b using b by (simp add: ex_db_def ex_db0_def ex_accepted_def ex_pending_def)
  from t [THEN conjunct2, THEN conjunct1, rule_format, OF bad, of 3]
  have f: "patch_service_request (ex_db ex_accepted) 3 ''r1'' ''c1'' ?bad
        = (ex_db ex_accepted, Error 500 ''Failed to update service request'')" .
  from t [THEN conjunct2, THEN conjunct2, THEN conjunct1, rule_format, of 3 ?start ex_accepted]
  have g: "updatedAt (applyUpdates 3 ?start ex_accepted) = 3"
    by simp
  from t [THEN conjunct2, THEN conjunct2, THEN conjunct2, THEN conjunct1, rule_format, OF k,
      of ?rename]
  have h: "updateError (ex_db ex_accepted) ''r1'' ?rename = None"
    by (simp add: noUpdates_def requestIds_def ex_defs)
  from t [THEN conjunct2, THEN conjunct2, THEN conjunct2, THEN conjunct2, rule_format, OF c]
  have i: "\<exists>r'. getServiceRequest
               (api_step (ex_db ex_accepted) (Patch 3 ''r1'' ''t1'' ?start)) ''r1'' = Some r'
          \<and> clientId r' = ''c1''"
    using d by simp
  from a' e f g h i k show ?thesis by blast
qed

text \<open>
  C9 as stated fails: the client of a request sends a status outside the five members, a
  new id, a new clientId and a new service type, and all four are stored.
\<close>

theorem patch_stores_any_status_and_client:
  "mayUpdate (ex_db ex_pending) ''r1'' ''c1''
   \<and> ''bogus'' \<notin> set [''pending'', ''accepted'', ''in_progress'', ''completed'', ''cancelled'']
   \<and> errorCode (snd (patch_service_request (ex_db ex_pending) 2 ''r1'' ''c1''
        (noUpdates\<lparr> u_id := Some (Some ''r9''), u_clientId := Some (Some ''t2''),
                     u_serviceType := Some (Some ''Electrician''),
                     u_status := Some (Some ''bogus'') \<rparr>))) = None
   \<and> map (\<lambda>r. (sr_id r, status r, clientId r, serviceType r))
        (serviceRequests (fst (patch_service_request (ex_db ex_pending) 2 ''r1'' ''c1''
          (noUpdates\<lparr> u_id := Some (Some ''r9''), u_clientId := Some (Some ''t2''),
                       u_serviceType := Some (Some ''Electrician''),
                       u_status := Some (Some ''bogus'') \<rparr>))))
       = [(''r9'', ''bogus'', ''t2'', ''Electrician'')]
   \<and> clientId ex_pending = ''c1''"
  by (simp add: mayUpdate_def ex_defs route_defs)

section \<open>Payments: creating an intent\<close>

lemma find_as_filter:
  "find P xs = (case filter P xs of [] \<Rightarrow> None | x # _ \<Rightarrow> Some x)"
  by (induction xs) auto

lemma lookup_all_succeeded:
  assumes "paymentsOf db srid \<noteq> []" "list_all (\<lambda>p. pay_status p = succeeded) (paymentsOf db srid)"
  shows "\<exists>p. getPaymentByServiceRequest db srid = Some p \<and> pay_status p = succeeded"
  using assms
  by (cases "paymentsOf db srid")
     (auto simp add: getPaymentByServiceRequest_def find_as_filter paymentsOf_def)

lemma lookup_none_succeeded:
  assumes "succeededPayments db srid = []"
  shows "(case getPaymentByServiceRequest db srid of None \<Rightarrow> False
          | Some existingPayment \<Rightarrow> pay_status existingPayment = succeeded) = False"
proof (cases "getPaymentByServiceRequest db srid")
  case None
  then show ?thesis by simp
next
  case (Some p)
  then have "p \<in> set (payments db)" "serviceRequestId p = srid"
    by (auto simp add: getPaymentByServiceRequest_def find_Some_iff)
  with assms have "pay_status p \<noteq> succeeded"
    by (auto simp add: succeededPayments_def filter_empty_conv)
  with Some show ?thesis by simp
qed

text \<open>
  C5, as the code has it. Creating an intent answers NotFound when the request does not
  exist; InvalidState when the request is not completed or its price is missing or 0;
  AlreadyPaid when the request has payments and all of them have succeeded. When the request
  is completed, its price is not 0, none of its payments has succeeded and the processor
  creates the intent, exactly one payment row is added, pending, with the price as its amount
  and the intent's id as its reference, and the answer carries the intent's client secret
  and the id of the new row; users and requests are untouched.
\<close>

theorem create_intent_outcomes:
  "(\<forall>stripe db now newId srid.
      getServiceRequest db srid = None \<longrightarrow>
        NotFound (snd (post_payments_create_intent stripe db now newId srid))
        \<and> fst (post_payments_create_intent stripe db now newId srid) = db)
   \<and> (\<forall>stripe db now newId srid r.
        getServiceRequest db srid = Some r
        \<and> (status r \<noteq> ''completed'' \<or> quotedPrice r = None \<or> quotedPrice r = Some 0) \<longrightarrow>
          InvalidState (snd (post_payments_create_intent stripe db now newId srid))
          \<and> fst (post_payments_create_intent stripe db now newId srid) = db)
   \<and> (\<forall>stripe db now newId srid r price.
        getServiceRequest db srid = Some r \<and> status r = ''completed''
        \<and> quotedPrice r = Some price \<and> price \<noteq> 0
        \<and> paymentsOf db srid \<noteq> []
        \<and> list_all (\<lambda>p. pay_status p = succeeded) (paymentsOf db srid) \<longrightarrow>
          AlreadyPaid (snd (post_payments_create_intent stripe db now newId srid))
          \<and> fst (post_payments_create_intent stripe db now newId srid) = db)
   \<and> (\<forall>stripe db now newId srid r price intent.
        getServiceRequest db srid = Some r \<and> status r = ''completed''
        \<and> quotedPrice r = Some price \<and> price \<noteq> 0
        \<and> succeededPayments db srid = []
        \<and> paymentIntents_create stripe (price * 100) srid (clientId r)
             (case technicianId r of None \<Rightarrow> [] | Some t \<Rightarrow> t) = Some intent \<longrightarrow>
          snd (post_payments_create_intent stripe db now newId srid)
            = Json \<lparr> clientSecret = client_secret intent, paymentId = newId \<rparr>
          \<and> payments (fst (post_payments_create_intent stripe db now newId srid))
            = payments db @ [\<lparr> pay_id = newId, serviceRequestId = srid, amount = price,
                                stripePaymentIntentId = pi_id intent, pay_status = pay_pending,
                                pay_createdAt = now \<rparr>]
          \<and> users (fst (post_payments_create_intent stripe db now newId srid)) = users db
          \<and> serviceRequests (fst (post_payments_create_intent stripe db now newId srid))
            = serviceRequests db)"
proof (intro conjI allI impI)
  fix stripe db now newId srid
  assume "getServiceRequest db srid = None"
  then show "NotFound (snd (post_payments_create_intent stripe db now newId srid))"
    and "fst (post_payments_create_intent stripe db now newId srid) = db"
    by (simp_all add: post_payments_create_intent_def NotFound_def)
next
  fix stripe db now newId srid r
  assume h: "getServiceRequest db srid = Some r
        \<and> (status r \<noteq> ''completed'' \<or> quotedPrice r = None \<or> quotedPrice r = Some 0)"
  then show "InvalidState (snd (post_payments_create_intent stripe db now newId srid))"
    by (auto simp add: post_payments_create_intent_def InvalidState_def)
  from h show "fst (post_payments_create_intent stripe db now newId srid) = db"
    by (auto simp add: post_payments_create_intent_def)
next
  fix stripe db now newId srid r price
  assume h: "getServiceRequest db srid = Some r \<and> status r = ''completed''
        \<and> quotedPrice r = Some price \<and> price \<noteq> 0
        \<and> paymentsOf db srid \<noteq> []
        \<and> list_all (\<lambda>p. pay_status p = succeeded) (paymentsOf db srid)"
  then obtain p where p: "getPaymentByServiceRequest db srid = Some p" "pay_status p = succeeded"
    using lookup_all_succeeded [of db srid] by blast
  with h show "AlreadyPaid (snd (post_payments_create_intent stripe db now newId srid))"
    by (simp add: post_payments_create_intent_def AlreadyPaid_def)
  from h p show "fst (post_payments_create_intent stripe db now newId srid) = db"
    by (simp add: post_payments_create_intent_def)
next
  fix stripe :: Stripe and db now newId srid r price intent
  assume h: "getServiceRequest db srid = Some r \<and> status r = ''completed''
        \<and> quotedPrice r = Some price \<and> price \<noteq> 0
        \<and> succeededPayments db srid = []
        \<and> paymentIntents_create stripe (price * 100) srid (clientId r)
             (case technicianId r of None \<Rightarrow> [] | Some t \<Rightarrow> t) = Some intent"
  then have res: "post_payments_create_intent stripe db now newId srid
      = (db\<lparr>payments := payments db @ [\<lparr> pay_id = newId, serviceRequestId = srid, amount = price,
                                stripePaymentIntentId = pi_id intent, pay_status = pay_pending,
                                pay_createdAt = now \<rparr>]\<rparr>,
         Json \<lparr> clientSecret = client_secret intent, paymentId = newId \<rparr>)"
    by (simp add: post_payments_create_intent_def lookup_none_succeeded createPayment_def Let_def)
  show "snd (post_payments_create_intent stripe db now newId srid)
            = Json \<lparr> clientSecret = client_secret intent, paymentId = newId \<rparr>"
    by (simp add: res)
  show "payments (fst (post_payments_create_intent stripe db now newId srid))
            = payments db @ [\<lparr> pay_id = newId, serviceRequestId = srid, amount = price,
                                stripePaymentIntentId = pi_id intent, pay_status = pay_pending,
                                pay_createdAt = now \<rparr>]"
    by (simp add: res)
  show "users (fst (post_payments_create_intent stripe db now newId srid)) = users db"
    by (simp add: res)
  show "serviceRequests (fst (post_payments_create_intent stripe db now newId srid))
            = serviceRequests db"
    by (simp add: res)
qed

theorem create_intent_outcomes_witness:
  "NotFound (snd (post_payments_create_intent (ex_stripe ''pi_1'' []) ex_db0 10 ''p1'' ''r1''))
   \<and> InvalidState (snd (post_payments_create_intent (ex_stripe ''pi_1'' [])
         (ex_db ex_in_progress) 10 ''p1'' ''r1''))
   \<and> AlreadyPaid (snd (post_payments_create_intent (ex_stripe ''pi_2'' [])
         (ex_paid_db [ex_payment ''p1'' ''pi_1'' succeeded 10]) 11 ''p2'' ''r1''))
   \<and> snd (post_payments_create_intent (ex_stripe ''pi_1'' []) (ex_db ex_completed) 10 ''p1'' ''r1'')
        = Json \<lparr> clientSecret = Some ''pi_1_secret'', paymentId = ''p1'' \<rparr>
   \<and> payments (fst (post_payments_create_intent (ex_stripe ''pi_1'' []) (ex_db ex_completed)
         10 ''p1'' ''r1''))
        = [ex_payment ''p1'' ''pi_1'' pay_pending 10]"
proof -
  have none: "getServiceRequest ex_db0 ''r1'' = None"
    by (simp add: getServiceRequest_def ex_defs)
  have early: "getServiceRequest (ex_db ex_in_progress) ''r1'' = Some ex_in_progress
      \<and> (status ex_in_progress \<noteq> ''completed'' \<or> quotedPrice ex_in_progress = None
          \<or> quotedPrice ex_in_progress = Some 0)"
    by (simp add: getServiceRequest_def ex_defs)
  have paid: "getServiceRequest (ex_paid_db [ex_payment ''p1'' ''pi_1'' succeeded 10]) ''r1''
        = Some ex_completed
      \<and> status ex_completed = ''completed''
      \<and> quotedPrice ex_completed = Some 120 \<and> (120::int) \<noteq> 0
      \<and> paymentsOf (ex_paid_db [ex_payment ''p1'' ''pi_1'' succeeded 10]) ''r1'' \<noteq> []
      \<and> list_all (\<lambda>p. pay_status p = succeeded)
           (paymentsOf (ex_paid_db [ex_payment ''p1'' ''pi_1'' succeeded 10]) ''r1'')"
    by (simp add: getServiceRequest_def paymentsOf_def ex_defs)
  have fresh: "getServiceRequest (ex_db ex_completed) ''r1'' = Some ex_completed
      \<and> status ex_completed = ''completed''
      \<and> quotedPrice ex_completed = Some 120 \<and> (120::int) \<noteq> 0
      \<and> succeededPayments (ex_db ex_completed) ''r1'' = []
      \<and> paymentIntents_create (ex_stripe ''pi_1'' []) (120 * 100) ''r1'' (clientId ex_completed)
           (case technicianId ex_completed of None \<Rightarrow> [] | Some t \<Rightarrow> t)
         = Some \<lparr> pi_id = ''pi_1'', client_secret = Some ''pi_1_secret'',
                  pi_status = ''requires_payment_method'' \<rparr>"
    by (simp add: getServiceRequest_def succeededPayments_def ex_defs)
  note t = create_intent_outcomes
  from t [THEN conjunct2, THEN conjunct2, THEN conjunct2, rule_format, OF fresh, of 10 "''p1''"]
  have made: "snd (post_payments_create_intent (ex_stripe ''pi_1'' []) (ex_db ex_completed)
          10 ''p1'' ''r1'')
        = Json \<lparr> clientSecret = Some ''pi_1_secret'', paymentId = ''p1'' \<rparr>
     \<and> payments (fst (post_payments_create_intent (ex_stripe ''pi_1'' []) (ex_db ex_completed)
         10 ''p1'' ''r1''))
        = [ex_payment ''p1'' ''pi_1'' pay_pending 10]"
    by (simp add: ex_defs)
  from t [THEN conjunct1, rule_format, OF none]
    t [THEN conjunct2, THEN conjunct1, rule_format, OF early]
    t [THEN conjunct2, THEN conjunct2, THEN conjunct1, rule_format, OF paid]
    made
  show ?thesis by blast
qed

text \<open>
  C5 as stated fails: a completed request with the price -5 has no positive price, and the
  answer is not InvalidState: the handler goes on to the processor, which refuses the amount.
\<close>

theorem negative_price_not_invalid_state:
  "getServiceRequest (ex_db ex_negative) ''r1'' = Some ex_negative
   \<and> status ex_negative = ''completed'' \<and> quotedPrice ex_negative = Some (- 5)
   \<and> snd (post_payments_create_intent (ex_stripe ''pi_1'' []) (ex_db ex_negative) 10 ''p1'' ''r1'')
        = Error 500 ''Failed to create payment intent''
   \<and> \<not> InvalidState
         (snd (post_payments_create_intent (ex_stripe ''pi_1'' []) (ex_db ex_negative)
                10 ''p1'' ''r1''))"
  by (simp add: ex_negative_def ex_defs route_defs InvalidState_def)

text \<open>Whatever the processor does with a negative amount, the answer is not InvalidState.\<close>

lemma negative_price_never_invalid_state:
  "getServiceRequest db srid = Some r \<Longrightarrow> status r = ''completed'' \<Longrightarrow>
   quotedPrice r = Some price \<Longrightarrow> price < 0 \<Longrightarrow>
     \<not> InvalidState (snd (post_payments_create_intent stripe db now newId srid))"
  by (simp add: post_payments_create_intent_def InvalidState_def createPayment_def Let_def
      split: option.splits)

text \<open>
  The guard against a second payment reads one payment of the request
  (\<^verbatim>\<open>limit(1)\<close>): when that one is pending, a payment that succeeded later in the
  table does not stop a new intent.
\<close>

lemma create_intent_after_second_payment_succeeded:
  "length (succeededPayments
     (ex_paid_db [ex_payment ''p1'' ''pi_1'' pay_pending 10, ex_payment ''p2'' ''pi_2'' succeeded 11])
     ''r1'') = 1
   \<and> snd (post_payments_create_intent (ex_stripe ''pi_3'' [''pi_2''])
        (ex_paid_db [ex_payment ''p1'' ''pi_1'' pay_pending 10,
                     ex_payment ''p2'' ''pi_2'' succeeded 11]) 12 ''p3'' ''r1'')
      = Json \<lparr> clientSecret = Some ''pi_3_secret'', paymentId = ''p3'' \<rparr>"
  by (simp add: ex_defs route_defs succeededPayments_def)

section \<open>Payments: at most one succeeded payment\<close>

text \<open>
  C6 does not hold of the code. For the completed request of the scenario the client asks
  for an intent twice (the first payment is still pending, so the second is allowed), pays
  both, and confirms both: the request has two succeeded payments.
\<close>

theorem two_payments_succeed:
  "succeededPayments (ex_db ex_completed) ''r1'' = []
   \<and> map (\<lambda>p. (pay_id p, serviceRequestId p, stripePaymentIntentId p, pay_status p))
        (payments (run (ex_db ex_completed) ex_double_payment))
       = [(''p1'', ''r1'', ''pi_1'', succeeded), (''p2'', ''r1'', ''pi_2'', succeeded)]
   \<and> length (succeededPayments (run (ex_db ex_completed) ex_double_payment) ''r1'') = 2"
  by (simp add: ex_double_payment_def ex_defs route_defs succeededPayments_def)

section \<open>Payments: confirming\<close>

lemma confirm_result:
  "post_payments_confirm stripe db userId body =
     (case paymentIntents_retrieve stripe (cb_paymentIntentId body) of
        None \<Rightarrow> (db, Error 500 ''Failed to confirm payment'')
      | Some intent \<Rightarrow>
          if pi_status intent = ''succeeded''
          then (db\<lparr>payments := map (\<lambda>p. if pay_id p = cb_paymentId body
                                          then p\<lparr>pay_status := succeeded\<rparr> else p) (payments db)\<rparr>,
                Json \<lparr> success = True, message = ''Payment confirmed'' \<rparr>)
          else (db, Json \<lparr> success = False, message = ''Payment not yet completed'' \<rparr>))"
  by (simp add: post_payments_confirm_def updatePaymentStatus_def Let_def split: option.splits)

text \<open>
  C7. Confirming asks the processor for the intent the body names. When the processor
  reports the status succeeded, the payment with the id the body names becomes succeeded
  and the answer is a success; when it reports any other status, the database is as it was
  and the answer is a non-success, not an error; when the call to the processor throws (it
  reports no status: the processor is out of reach or does not know the reference), the
  database is as it was and the answer is the upstream failure, 500. So a payment becomes
  succeeded only when the processor reports success. Nothing else in the body is read: a
  flag the client adds to the body changes neither the database nor the answer.
\<close>

theorem confirm_follows_processor:
  "(\<forall>stripe db userId (body :: 'a ConfirmBody_scheme) intent.
      paymentIntents_retrieve stripe (cb_paymentIntentId body) = Some intent
      \<and> pi_status intent = ''succeeded'' \<longrightarrow>
        snd (post_payments_confirm stripe db userId body)
          = Json \<lparr> success = True, message = ''Payment confirmed'' \<rparr>
        \<and> payments (fst (post_payments_confirm stripe db userId body))
          = map (\<lambda>p. if pay_id p = cb_paymentId body then p\<lparr>pay_status := succeeded\<rparr> else p)
              (payments db)
        \<and> users (fst (post_payments_confirm stripe db userId body)) = users db
        \<and> serviceRequests (fst (post_payments_confirm stripe db userId body))
          = serviceRequests db)
   \<and> (\<forall>stripe db userId (body :: 'a ConfirmBody_scheme) intent.
        paymentIntents_retrieve stripe (cb_paymentIntentId body) = Some intent
        \<and> pi_status intent \<noteq> ''succeeded'' \<longrightarrow>
          fst (post_payments_confirm stripe db userId body) = db
          \<and> snd (post_payments_confirm stripe db userId body)
            = Json \<lparr> success = False, message = ''Payment not yet completed'' \<rparr>)
   \<and> (\<forall>stripe db userId (body :: 'a ConfirmBody_scheme).
        paymentIntents_retrieve stripe (cb_paymentIntentId body) = None \<longrightarrow>
          fst (post_payments_confirm stripe db userId body) = db
          \<and> snd (post_payments_confirm stripe db userId body)
            = Error 500 ''Failed to confirm payment'')
   \<and> (\<forall>stripe db userId body (flag :: 'a).
        post_payments_confirm stripe db userId (ConfirmBody.extend body flag)
          = post_payments_confirm stripe db userId body)"
proof (intro conjI allI impI)
  fix stripe db userId and body :: ConfirmBody and flag :: 'a
  have same: "cb_paymentId (ConfirmBody.extend body flag) = cb_paymentId body"
    "cb_paymentIntentId (ConfirmBody.extend body flag) = cb_paymentIntentId body"
    by (simp_all add: ConfirmBody.defs)
  show "post_payments_confirm stripe db userId (ConfirmBody.extend body flag)
          = post_payments_confirm stripe db userId body"
    unfolding post_payments_confirm_def same by (rule refl)
qed (simp_all add: confirm_result)

theorem confirm_follows_processor_witness:
  "snd (post_payments_confirm (ex_stripe ''pi_9'' [''pi_1''])
         (ex_paid_db [ex_payment ''p1'' ''pi_1'' pay_pending 10]) ''c1''
         \<lparr> cb_paymentId = ''p1'', cb_paymentIntentId = ''pi_1'' \<rparr>)
     = Json \<lparr> success = True, message = ''Payment confirmed'' \<rparr>
   \<and> payments (fst (post_payments_confirm (ex_stripe ''pi_9'' [''pi_1''])
         (ex_paid_db [ex_payment ''p1'' ''pi_1'' pay_pending 10]) ''c1''
         \<lparr> cb_paymentId = ''p1'', cb_paymentIntentId = ''pi_1'' \<rparr>))
     = [ex_payment ''p1'' ''pi_1'' succeeded 10]
   \<and> fst (post_payments_confirm (ex_stripe ''pi_9'' [])
         (ex_paid_db [ex_payment ''p1'' ''pi_1'' pay_pending 10]) ''c1''
         \<lparr> cb_paymentId = ''p1'', cb_paymentIntentId = ''pi_1'' \<rparr>)
     = ex_paid_db [ex_payment ''p1'' ''pi_1'' pay_pending 10]
   \<and> snd (post_payments_confirm (ex_stripe ''pi_9'' [])
         (ex_paid_db [ex_payment ''p1'' ''pi_1'' pay_pending 10]) ''c1''
         \<lparr> cb_paymentId = ''p1'', cb_paymentIntentId = ''pi_1'' \<rparr>)
     = Json \<lparr> success = False, message = ''Payment not yet completed'' \<rparr>
   \<and> post_payments_confirm ex_stripe_unknown
         (ex_paid_db [ex_payment ''p1'' ''pi_1'' pay_pending 10]) ''c1''
         \<lparr> cb_paymentId = ''p1'', cb_paymentIntentId = ''pi_1'' \<rparr>
     = (ex_paid_db [ex_payment ''p1'' ''pi_1'' pay_pending 10],
        Error 500 ''Failed to confirm payment'')
   \<and> post_payments_confirm (ex_stripe ''pi_9'' [])
         (ex_paid_db [ex_payment ''p1'' ''pi_1'' pay_pending 10]) ''c1''
         (ConfirmBody.extend \<lparr> cb_paymentId = ''p1'', cb_paymentIntentId = ''pi_1'' \<rparr> True)
     = post_payments_confirm (ex_stripe ''pi_9'' [])
         (ex_paid_db [ex_payment ''p1'' ''pi_1'' pay_pending 10]) ''c1''
         \<lparr> cb_paymentId = ''p1'', cb_paymentIntentId = ''pi_1'' \<rparr>"
proof -
  let ?body = "\<lparr> cb_paymentId = ''p1'', cb_paymentIntentId = ''pi_1'' \<rparr>"
  let ?db = "ex_paid_db [ex_payment ''p1'' ''pi_1'' pay_pending 10]"
  have yes: "paymentIntents_retrieve (ex_stripe ''pi_9'' [''pi_1'']) (cb_paymentIntentId ?body)
        = Some \<lparr> pi_id = ''pi_1'', client_secret = Some ''pi_1_secret'',
                 pi_status = ''succeeded'' \<rparr>
      \<and> pi_status \<lparr> pi_id = ''pi_1'', client_secret = Some ''pi_1_secret'',
                 pi_status = ''succeeded'' \<rparr> = ''succeeded''"
    by (simp add: ex_defs)
  have no: "paymentIntents_retrieve (ex_stripe ''pi_9'' []) (cb_paymentIntentId ?body)
        = Some \<lparr> pi_id = ''pi_1'', client_secret = Some ''pi_1_secret'',
                 pi_status = ''requires_payment_method'' \<rparr>
      \<and> pi_status \<lparr> pi_id = ''pi_1'', client_secret = Some ''pi_1_secret'',
                 pi_status = ''requires_payment_method'' \<rparr> \<noteq> ''succeeded''"
    by (simp add: ex_defs)
  note t = confirm_follows_processor
  from t [THEN conjunct1, rule_format, OF yes, of ?db "''c1''"]
  have a: "snd (post_payments_confirm (ex_stripe ''pi_9'' [''pi_1'']) ?db ''c1'' ?body)
       = Json \<lparr> success = True, message = ''Payment confirmed'' \<rparr>
     \<and> payments (fst (post_payments_confirm (ex_stripe ''pi_9'' [''pi_1'']) ?db ''c1'' ?body))
       = [ex_payment ''p1'' ''pi_1'' succeeded 10]"
    by (simp add: ex_defs)
  have gone: "paymentIntents_retrieve ex_stripe_unknown (cb_paymentIntentId ?body) = None"
    by (simp add: ex_stripe_unknown_def)
  from t [THEN conjunct2, THEN conjunct2, THEN conjunct1, rule_format, OF gone, of ?db "''c1''"]
  have b: "post_payments_confirm ex_stripe_unknown ?db ''c1'' ?body
      = (?db, Error 500 ''Failed to confirm payment'')"
    by (simp add: prod_eq_iff)
  from a b t [THEN conjunct2, THEN conjunct1, rule_format, OF no, of ?db "''c1''"]
    t [THEN conjunct2, THEN conjunct2, THEN conjunct2, rule_format,
       of "ex_stripe ''pi_9'' []" ?db "''c1''" ?body True]
  show ?thesis by blast
qed

lemma find_marked:
  "find (\<lambda>p. pay_id p = pid)
      (map (\<lambda>p. if pay_id p = pid then p\<lparr>pay_status := st\<rparr> else p) rows)
     = map_option (\<lambda>p. p\<lparr>pay_status := st\<rparr>) (find (\<lambda>p. pay_id p = pid) rows)"
  by (induction rows) auto

lemma mark_absent:
  "find (\<lambda>p. pay_id p = pid) rows = None \<Longrightarrow>
     map (\<lambda>p. if pay_id p = pid then p\<lparr>pay_status := st\<rparr> else p) rows = rows"
  by (induction rows) (auto split: if_splits)

text \<open>
  C10. For every caller, payment id and intent reference: when the processor reports the
  intent as succeeded, the answer is a success and the payment row with that id, if there is
  one, becomes succeeded. Nothing is assumed of the reference the row stores, of the row's
  existence (with no such row the database is as it was and the answer is still a success)
  or of the caller.
\<close>

theorem confirm_marks_any_payment:
  assumes "paymentIntents_retrieve stripe (cb_paymentIntentId body) = Some intent"
    and "pi_status intent = ''succeeded''"
  shows "snd (post_payments_confirm stripe db userId body)
           = Json \<lparr> success = True, message = ''Payment confirmed'' \<rparr>
     \<and> (case find (\<lambda>p. pay_id p = cb_paymentId body) (payments db) of
          None \<Rightarrow> fst (post_payments_confirm stripe db userId body) = db
        | Some p \<Rightarrow>
            find (\<lambda>p. pay_id p = cb_paymentId body)
              (payments (fst (post_payments_confirm stripe db userId body)))
              = Some (p\<lparr>pay_status := succeeded\<rparr>))
     \<and> list_all (\<lambda>p. pay_id p \<noteq> cb_paymentId body \<or> pay_status p = succeeded)
          (payments (fst (post_payments_confirm stripe db userId body)))"
proof -
  let ?rows = "map (\<lambda>p. if pay_id p = cb_paymentId body then p\<lparr>pay_status := succeeded\<rparr> else p)
                 (payments db)"
  from assms have res: "post_payments_confirm stripe db userId body
      = (db\<lparr>payments := ?rows\<rparr>, Json \<lparr> success = True, message = ''Payment confirmed'' \<rparr>)"
    by (simp add: confirm_result)
  have "list_all (\<lambda>p. pay_id p \<noteq> cb_paymentId body \<or> pay_status p = succeeded) ?rows"
    by (auto simp add: list_all_iff)
  moreover have "case find (\<lambda>p. pay_id p = cb_paymentId body) (payments db) of
          None \<Rightarrow> db\<lparr>payments := ?rows\<rparr> = db
        | Some p \<Rightarrow> find (\<lambda>p. pay_id p = cb_paymentId body) ?rows
              = Some (p\<lparr>pay_status := succeeded\<rparr>)"
    by (simp add: find_marked mark_absent split: option.splits)
  ultimately show ?thesis
    by (auto simp add: res split: option.splits)
qed

theorem confirm_marks_any_payment_witness:
  "paymentIntents_retrieve (ex_stripe ''pi_9'' [''pi_1'']) ''pi_1''
     = Some \<lparr> pi_id = ''pi_1'', client_secret = Some ''pi_1_secret'', pi_status = ''succeeded'' \<rparr>
   \<and> stripePaymentIntentId (ex_payment ''p2'' ''pi_2'' pay_pending 11) \<noteq> ''pi_1''
   \<and> clientId ex_completed \<noteq> ''t2'' \<and> technicianId ex_completed \<noteq> Some ''t2''
   \<and> snd (post_payments_confirm (ex_stripe ''pi_9'' [''pi_1''])
        (ex_paid_db [ex_payment ''p1'' ''pi_1'' pay_pending 10,
                     ex_payment ''p2'' ''pi_2'' pay_pending 11]) ''t2''
        \<lparr> cb_paymentId = ''p2'', cb_paymentIntentId = ''pi_1'' \<rparr>)
       = Json \<lparr> success = True, message = ''Payment confirmed'' \<rparr>
   \<and> find (\<lambda>p. pay_id p = ''p2'')
        (payments (fst (post_payments_confirm (ex_stripe ''pi_9'' [''pi_1''])
           (ex_paid_db [ex_payment ''p1'' ''pi_1'' pay_pending 10,
                        ex_payment ''p2'' ''pi_2'' pay_pending 11]) ''t2''
           \<lparr> cb_paymentId = ''p2'', cb_paymentIntentId = ''pi_1'' \<rparr>)))
       = Some (ex_payment ''p2'' ''pi_2'' succeeded 11)"
proof -
  let ?body = "\<lparr> cb_paymentId = ''p2'', cb_paymentIntentId = ''pi_1'' \<rparr>"
  let ?db = "ex_paid_db [ex_payment ''p1'' ''pi_1'' pay_pending 10,
                         ex_payment ''p2'' ''pi_2'' pay_pending 11]"
  let ?intent = "\<lparr> pi_id = ''pi_1'', client_secret = Some ''pi_1_secret'',
                   pi_status = ''succeeded'' \<rparr>"
  have a: "paymentIntents_retrieve (ex_stripe ''pi_9'' [''pi_1'']) (cb_paymentIntentId ?body)
             = Some ?intent"
    by (simp add: ex_defs)
  have b: "pi_status ?intent = ''succeeded''"
    by simp
  have c: "stripePaymentIntentId (ex_payment ''p2'' ''pi_2'' pay_pending 11) \<noteq> ''pi_1''
      \<and> clientId ex_completed \<noteq> ''t2'' \<and> technicianId ex_completed \<noteq> Some ''t2''"
    by (simp add: ex_defs)
  from confirm_marks_any_payment [OF a b, of ?db "''t2''"]
  have d: "snd (post_payments_confirm (ex_stripe ''pi_9'' [''pi_1'']) ?db ''t2'' ?body)
       = Json \<lparr> success = True, message = ''Payment confirmed'' \<rparr>
     \<and> find (\<lambda>p. pay_id p = ''p2'')
        (payments (fst (post_payments_confirm (ex_stripe ''pi_9'' [''pi_1'']) ?db ''t2'' ?body)))
       = Some (ex_payment ''p2'' ''pi_2'' succeeded 11)"
    by (simp add: ex_defs)
  from a c d show ?thesis by simp
qed

end
